theory Spec2Isabelle
  imports Complex_Main
begin

section \<open>Output values\<close>

text \<open>
  The converter builds Python dictionaries, lists and scalars. A dictionary is an
  association list in insertion order; \<open>out[k] = v\<close> replaces the value of an existing
  key in place and appends a new key at the end, as Python does.
  Numbers are only copied from the input, never computed with.
\<close>

datatype val =
    VNone
  | VBool bool
  | VNum real
  | VStr string
  | VList "val list"
  | VDict "(string \<times> val) list"

type_synonym dict = "(string \<times> val) list"

fun dict_set :: "dict \<Rightarrow> string \<Rightarrow> val \<Rightarrow> dict" where
  "dict_set [] k v = [(k, v)]"
| "dict_set ((k', v') # d) k v =
     (if k' = k then (k, v) # d else (k', v') # dict_set d k v)"

definition dict_get :: "dict \<Rightarrow> string \<Rightarrow> val option" where
  "dict_get d k = map_of d k"

definition dict_keys :: "dict \<Rightarrow> string set" where
  "dict_keys d = fst ` set d"

section \<open>Errors\<close>

text \<open>
  \<open>NotImplementedException\<close> is the converter's own exception (the spec's
  UnsupportedVariant); its message names a class or a gradient type code.
  \<open>AttributeError\<close> is what Python raises on reading an attribute of \<open>None\<close>
  or of an object that lacks it; it carries the attribute's name.
\<close>

datatype subject = ClassName string | GradientCode int

datatype error = NotImplementedException subject | AttributeError string

type_synonym 'a result = "error + 'a"

text \<open>The results of a loop body run over a list: the first exception ends the loop.\<close>

fun sequence :: "'a result list \<Rightarrow> 'a list result" where
  "sequence [] = Inr []"
| "sequence (r # rs) =
     (case r of
        Inl e \<Rightarrow> Inl e
      | Inr x \<Rightarrow> (case sequence rs of Inl e \<Rightarrow> Inl e | Inr xs \<Rightarrow> Inr (x # xs)))"

section \<open>The object model read by the converter\<close>

text \<open>
  Modelled from the spec: the classes of \<open>slyr.parser\<close> (symbols, symbol layers,
  colors, fonts, ramps, pictures, templates, decorations) are imported by the converter
  and not defined in it. Their attributes are the ones the converter reads; which class
  carries which attribute follows section 3 of the spec. A class is one constructor:
  the concrete classes are taken to be pairwise unrelated by inheritance, and objects
  (other than \<open>None\<close>) to be truthy.
\<close>

record color =
  model :: string
  to_dict :: dict

record color_ramp =
  ramp_to_dict :: dict

record font =
  font_name :: string
  charset :: val
  weight :: val
  font_size :: real
  italic :: bool
  strikethrough :: bool
  underline :: bool

record line_template =
  pattern_interval :: real
  pattern_parts :: "real list"

text \<open>
  A picture: \<open>StdPicture\<close> is the holder with its \<open>picture\<close> attribute;
  \<open>OtherPicture\<close> is any picture class the converter does not know, with its name.
\<close>

datatype picture =
    BmpPicture "nat list"
  | EmfPicture "nat list"
  | StdPicture "picture option"
  | OtherPicture string

text \<open>The attributes every symbol layer has.\<close>

record layer_base =
  enabled :: bool
  locked :: bool
  tags :: "string list option"

record gradient_fill =
  gf_ramp :: color_ramp
  gf_percent :: real
  gf_angle :: real
  gf_intervals :: real
  gf_type :: int

record line_fill =
  lf_angle :: real
  lf_offset :: real
  lf_separation :: real

record marker_fill =
  mf_offset_x :: real
  mf_offset_y :: real
  mf_separation_x :: real
  mf_separation_y :: real
  mf_random :: bool

record picture_fill =
  pf_color_foreground :: "color option"
  pf_color_background :: "color option"
  pf_color_transparent :: "color option"
  pf_swap_fb_gb :: bool
  pf_picture :: "picture option"
  pf_angle :: real
  pf_scale_x :: real
  pf_scale_y :: real
  pf_offset_x :: real
  pf_offset_y :: real
  pf_separation_x :: real
  pf_separation_y :: real

record simple_line =
  sl_color :: "color option"
  sl_width :: real
  sl_line_type :: val

record cartographic_line =
  cl_color :: "color option"
  cl_width :: real
  cl_offset :: real
  cl_cap :: val
  cl_join :: val
  cl_template :: "line_template option"

record marker_line =
  ml_color :: "color option"
  ml_offset :: real
  ml_cap :: val
  ml_join :: val
  ml_template :: "line_template option"

record hash_line =
  hl_color :: "color option"
  hl_width :: real
  hl_offset :: real
  hl_cap :: val
  hl_join :: val
  hl_template :: "line_template option"

record simple_marker =
  sm_color :: "color option"
  sm_type :: val
  sm_size :: real
  sm_x_offset :: real
  sm_y_offset :: real
  sm_outline_enabled :: bool
  sm_outline_color :: "color option"
  sm_outline_width :: real

record character_marker =
  cm_color :: "color option"
  cm_unicode :: val
  cm_font :: val
  cm_std_font :: "font option"
  cm_size :: real
  cm_angle :: real
  cm_x_offset :: real
  cm_y_offset :: real

record arrow_marker =
  am_color :: "color option"
  am_size :: real
  am_width :: real
  am_angle :: real
  am_x_offset :: real
  am_y_offset :: real

record picture_marker =
  pm_color_foreground :: "color option"
  pm_color_background :: "color option"
  pm_color_transparent :: "color option"
  pm_size :: real
  pm_angle :: real
  pm_x_offset :: real
  pm_y_offset :: real
  pm_swap_fb_gb :: bool
  pm_picture :: "picture option"

record simple_line_decoration =
  fixed_angle :: bool
  flip_first :: bool
  flip_all :: bool
  marker_positions :: "real list"

record marker_symbol_halo =
  halo :: bool
  halo_size :: real

text \<open>
  The recursive part. Each layer constructor takes the base attributes, the
  record of its scalar attributes and then its sub-objects:
  \<^item> the fill layers end with \<open>outline_layer\<close> and \<open>outline_symbol\<close>;
    \<open>LineFillSymbolLayer\<close> has \<open>line\<close> and \<open>MarkerFillSymbolLayer\<close> has
    \<open>marker\<close> before them;
  \<^item> \<open>CartographicLineSymbolLayer\<close> ends with \<open>decoration\<close>,
    \<open>MarkerLineSymbolLayer\<close> with \<open>pattern_marker\<close> and \<open>decoration\<close>,
    \<open>HashLineSymbolLayer\<close> with \<open>line\<close> and \<open>decoration\<close>;
  \<^item> \<open>OtherFillSymbolLayer\<close>, \<open>OtherLineSymbolLayer\<close> and
    \<open>OtherMarkerSymbolLayer\<close> are the subclasses of a family that the converter
    does not know, \<open>OtherSymbolLayer\<close> a layer of none of the three families, each
    with its class name.
  A symbol has its \<open>levels\<close>; a \<open>MarkerSymbol\<close> has \<open>halo\<close>, \<open>halo_size\<close>
  and \<open>halo_symbol\<close> before them. A value that is a bare layer or a symbol is a
  \<open>symbol_or_layer\<close>. A \<open>LineDecoration\<close> has its \<open>decorations\<close>, a
  \<open>SimpleLineDecoration\<close> its scalar attributes and its \<open>marker\<close>.
\<close>

datatype symbol_layer =
    SimpleFillSymbolLayer layer_base "color option" "symbol_layer option" "symbol option"
  | ColorSymbol layer_base "color option"
  | GradientFillSymbolLayer layer_base gradient_fill "symbol_layer option" "symbol option"
  | LineFillSymbolLayer layer_base line_fill symbol_or_layer
      "symbol_layer option" "symbol option"
  | MarkerFillSymbolLayer layer_base marker_fill symbol_or_layer
      "symbol_layer option" "symbol option"
  | PictureFillSymbolLayer layer_base picture_fill "symbol_layer option" "symbol option"
  | OtherFillSymbolLayer layer_base string
  | SimpleLineSymbolLayer layer_base simple_line
  | CartographicLineSymbolLayer layer_base cartographic_line "decoration option"
  | MarkerLineSymbolLayer layer_base marker_line "symbol_or_layer option" "decoration option"
  | HashLineSymbolLayer layer_base hash_line "symbol_or_layer option" "decoration option"
  | OtherLineSymbolLayer layer_base string
  | SimpleMarkerSymbolLayer layer_base simple_marker
  | CharacterMarkerSymbolLayer layer_base character_marker
  | ArrowMarkerSymbolLayer layer_base arrow_marker
  | PictureMarkerSymbolLayer layer_base picture_marker
  | OtherMarkerSymbolLayer layer_base string
  | OtherSymbolLayer layer_base string
and symbol =
    FillSymbol "symbol_layer list"
  | LineSymbol "symbol_layer list"
  | MarkerSymbol marker_symbol_halo "symbol option" "symbol_layer list"
and symbol_or_layer =
    IsLayer symbol_layer
  | IsSymbol symbol
and decoration =
    LineDecoration "decoration list"
  | SimpleLineDecoration simple_line_decoration "symbol_or_layer option"

section \<open>Class names and class tests\<close>

text \<open>\<open>type(layer).__name__\<close>.\<close>

fun layer_class_name :: "symbol_layer \<Rightarrow> string" where
  "layer_class_name (SimpleFillSymbolLayer _ _ _ _) = ''SimpleFillSymbolLayer''"
| "layer_class_name (ColorSymbol _ _) = ''ColorSymbol''"
| "layer_class_name (GradientFillSymbolLayer _ _ _ _) = ''GradientFillSymbolLayer''"
| "layer_class_name (LineFillSymbolLayer _ _ _ _ _) = ''LineFillSymbolLayer''"
| "layer_class_name (MarkerFillSymbolLayer _ _ _ _ _) = ''MarkerFillSymbolLayer''"
| "layer_class_name (PictureFillSymbolLayer _ _ _ _) = ''PictureFillSymbolLayer''"
| "layer_class_name (OtherFillSymbolLayer _ n) = n"
| "layer_class_name (SimpleLineSymbolLayer _ _) = ''SimpleLineSymbolLayer''"
| "layer_class_name (CartographicLineSymbolLayer _ _ _) = ''CartographicLineSymbolLayer''"
| "layer_class_name (MarkerLineSymbolLayer _ _ _ _) = ''MarkerLineSymbolLayer''"
| "layer_class_name (HashLineSymbolLayer _ _ _ _) = ''HashLineSymbolLayer''"
| "layer_class_name (OtherLineSymbolLayer _ n) = n"
| "layer_class_name (SimpleMarkerSymbolLayer _ _) = ''SimpleMarkerSymbolLayer''"
| "layer_class_name (CharacterMarkerSymbolLayer _ _) = ''CharacterMarkerSymbolLayer''"
| "layer_class_name (ArrowMarkerSymbolLayer _ _) = ''ArrowMarkerSymbolLayer''"
| "layer_class_name (PictureMarkerSymbolLayer _ _) = ''PictureMarkerSymbolLayer''"
| "layer_class_name (OtherMarkerSymbolLayer _ n) = n"
| "layer_class_name (OtherSymbolLayer _ n) = n"

text \<open>The attributes \<open>enabled\<close>, \<open>locked\<close> and \<open>tags\<close> of a layer.\<close>

fun base :: "symbol_layer \<Rightarrow> layer_base" where
  "base (SimpleFillSymbolLayer b _ _ _) = b"
| "base (ColorSymbol b _) = b"
| "base (GradientFillSymbolLayer b _ _ _) = b"
| "base (LineFillSymbolLayer b _ _ _ _) = b"
| "base (MarkerFillSymbolLayer b _ _ _ _) = b"
| "base (PictureFillSymbolLayer b _ _ _) = b"
| "base (OtherFillSymbolLayer b _) = b"
| "base (SimpleLineSymbolLayer b _) = b"
| "base (CartographicLineSymbolLayer b _ _) = b"
| "base (MarkerLineSymbolLayer b _ _ _) = b"
| "base (HashLineSymbolLayer b _ _ _) = b"
| "base (OtherLineSymbolLayer b _) = b"
| "base (SimpleMarkerSymbolLayer b _) = b"
| "base (CharacterMarkerSymbolLayer b _) = b"
| "base (ArrowMarkerSymbolLayer b _) = b"
| "base (PictureMarkerSymbolLayer b _) = b"
| "base (OtherMarkerSymbolLayer b _) = b"
| "base (OtherSymbolLayer b _) = b"

text \<open>\<open>issubclass(layer.__class__, FillSymbolLayer)\<close> and its two siblings.\<close>

fun is_FillSymbolLayer :: "symbol_layer \<Rightarrow> bool" where
  "is_FillSymbolLayer (SimpleFillSymbolLayer _ _ _ _) = True"
| "is_FillSymbolLayer (ColorSymbol _ _) = True"
| "is_FillSymbolLayer (GradientFillSymbolLayer _ _ _ _) = True"
| "is_FillSymbolLayer (LineFillSymbolLayer _ _ _ _ _) = True"
| "is_FillSymbolLayer (MarkerFillSymbolLayer _ _ _ _ _) = True"
| "is_FillSymbolLayer (PictureFillSymbolLayer _ _ _ _) = True"
| "is_FillSymbolLayer (OtherFillSymbolLayer _ _) = True"
| "is_FillSymbolLayer _ = False"

fun is_LineSymbolLayer :: "symbol_layer \<Rightarrow> bool" where
  "is_LineSymbolLayer (SimpleLineSymbolLayer _ _) = True"
| "is_LineSymbolLayer (CartographicLineSymbolLayer _ _ _) = True"
| "is_LineSymbolLayer (MarkerLineSymbolLayer _ _ _ _) = True"
| "is_LineSymbolLayer (HashLineSymbolLayer _ _ _ _) = True"
| "is_LineSymbolLayer (OtherLineSymbolLayer _ _) = True"
| "is_LineSymbolLayer _ = False"

fun is_MarkerSymbolLayer :: "symbol_layer \<Rightarrow> bool" where
  "is_MarkerSymbolLayer (SimpleMarkerSymbolLayer _ _) = True"
| "is_MarkerSymbolLayer (CharacterMarkerSymbolLayer _ _) = True"
| "is_MarkerSymbolLayer (ArrowMarkerSymbolLayer _ _) = True"
| "is_MarkerSymbolLayer (PictureMarkerSymbolLayer _ _) = True"
| "is_MarkerSymbolLayer (OtherMarkerSymbolLayer _ _) = True"
| "is_MarkerSymbolLayer _ = False"

text \<open>\<open>type(symbol.halo_symbol).__name__\<close>: the class of \<open>None\<close> is \<open>NoneType\<close>.\<close>

fun symbol_class_name :: "symbol \<Rightarrow> string" where
  "symbol_class_name (FillSymbol _) = ''FillSymbol''"
| "symbol_class_name (LineSymbol _) = ''LineSymbol''"
| "symbol_class_name (MarkerSymbol _ _ _) = ''MarkerSymbol''"

definition type_name_of_halo_symbol :: "symbol option \<Rightarrow> string" where
  "type_name_of_halo_symbol hs =
     (case hs of None \<Rightarrow> ''NoneType'' | Some s \<Rightarrow> symbol_class_name s)"

fun is_FillSymbol :: "symbol \<Rightarrow> bool" where
  "is_FillSymbol (FillSymbol _) = True"
| "is_FillSymbol _ = False"

fun levels :: "symbol \<Rightarrow> symbol_layer list" where
  "levels (FillSymbol ls) = ls"
| "levels (LineSymbol ls) = ls"
| "levels (MarkerSymbol _ _ ls) = ls"

fun picture_class_name :: "picture option \<Rightarrow> string" where
  "picture_class_name None = ''NoneType''"
| "picture_class_name (Some (BmpPicture _)) = ''BmpPicture''"
| "picture_class_name (Some (EmfPicture _)) = ''EmfPicture''"
| "picture_class_name (Some (StdPicture _)) = ''StdPicture''"
| "picture_class_name (Some (OtherPicture n)) = n"

section \<open>What the converter takes from outside\<close>

text \<open>
  The four gradient type codes are class constants of \<open>GradientFillSymbolLayer\<close>, and
  the two base64 encoders are functions of \<open>PictureUtils\<close>; neither is defined in the
  converter, so they are parameters of the conversion.
\<close>

record externals =
  LINEAR :: int
  CIRCULAR :: int
  BUFFERED :: int
  RECTANGULAR :: int
  to_base64_png :: "nat list \<Rightarrow> string"
  to_base64 :: "nat list \<Rightarrow> string"

section \<open>Leaf converters\<close>

definition convert_color :: "color option \<Rightarrow> val" where
  "convert_color c = (case c of Some col \<Rightarrow> VDict (to_dict col) | None \<Rightarrow> VNone)"

text \<open>
  The unguarded read \<open>x.model\<close> of a color attribute \<open>x\<close>: on \<open>None\<close> Python
  raises AttributeError.
\<close>

definition read_model :: "color option \<Rightarrow> val result" where
  "read_model c =
     (case c of None \<Rightarrow> Inl (AttributeError ''model'') | Some col \<Rightarrow> Inr (VStr (model col)))"

text \<open>The guarded read \<open>x.model if x else None\<close>.\<close>

definition read_model_or_None :: "color option \<Rightarrow> val" where
  "read_model_or_None c = (case c of None \<Rightarrow> VNone | Some col \<Rightarrow> VStr (model col))"

definition convert_font :: "font \<Rightarrow> dict" where
  "convert_font f =
     [(''font_name'', VStr (font_name f)),
      (''charset'', charset f),
      (''weight'', weight f),
      (''size'', VNum (font_size f)),
      (''italic'', VBool (italic f)),
      (''strikethrough'', VBool (strikethrough f)),
      (''underline'', VBool (underline f))]"

definition convert_template :: "line_template \<Rightarrow> dict" where
  "convert_template t =
     [(''pattern_interval'', VNum (pattern_interval t)),
      (''pattern_parts'', VList (map VNum (pattern_parts t)))]"

definition convert_gradient_type :: "externals \<Rightarrow> int \<Rightarrow> string result" where
  "convert_gradient_type X gradient_type =
     (if gradient_type = LINEAR X then Inr ''linear''
      else if gradient_type = CIRCULAR X then Inr ''circular''
      else if gradient_type = BUFFERED X then Inr ''buffered''
      else if gradient_type = RECTANGULAR X then Inr ''rectangular''
      else Inl (NotImplementedException (GradientCode gradient_type)))"

text \<open>
  \<open>convert_picture\<close>: a \<open>StdPicture\<close> is replaced by its \<open>picture\<close> attribute,
  once; the class name is then that of the replaced value.
\<close>

definition unwrap_picture :: "picture \<Rightarrow> picture option" where
  "unwrap_picture p = (case p of StdPicture q \<Rightarrow> q | _ \<Rightarrow> Some p)"

definition convert_picture :: "externals \<Rightarrow> picture option \<Rightarrow> val result" where
  "convert_picture X picture =
     (case picture of
        None \<Rightarrow> Inr VNone
      | Some p \<Rightarrow>
          (let q = unwrap_picture p;
               out = [(''type'', VStr (picture_class_name q))]
           in case q of
                Some (BmpPicture content) \<Rightarrow>
                  Inr (VDict (dict_set out ''content'' (VStr (to_base64_png X content))))
              | Some (EmfPicture content) \<Rightarrow>
                  Inr (VDict (dict_set out ''content'' (VStr (to_base64 X content))))
              | _ \<Rightarrow> Inl (NotImplementedException (ClassName (picture_class_name q)))))"

section \<open>Marker symbol layers\<close>

text \<open>
  Each converter of one class is reached through the dispatch of its family with a
  layer of that class. On a layer of another class the Python would read attributes
  the object lacks; the model answers AttributeError there.
\<close>

definition convert_simple_marker_symbol_layer :: "symbol_layer \<Rightarrow> dict result" where
  "convert_simple_marker_symbol_layer layer =
     (case layer of
        SimpleMarkerSymbolLayer b a \<Rightarrow>
          (case read_model (sm_color a) of
             Inl e \<Rightarrow> Inl e
           | Inr color_model \<Rightarrow>
          (case read_model (sm_outline_color a) of
             Inl e \<Rightarrow> Inl e
           | Inr outline_color_model \<Rightarrow>
          (case sm_outline_color a of
             None \<Rightarrow> Inl (AttributeError ''to_dict'')
           | Some oc \<Rightarrow>
               Inr [(''color'', convert_color (sm_color a)),
                    (''color_model'', color_model),
                    (''marker_type'', sm_type a),
                    (''size'', VNum (sm_size a)),
                    (''x_offset'', VNum (sm_x_offset a)),
                    (''y_offset'', VNum (sm_y_offset a)),
                    (''outline_enabled'', VBool (sm_outline_enabled a)),
                    (''outline_color_model'', outline_color_model),
                    (''outline_color'', VDict (to_dict oc)),
                    (''outline_size'', VNum (sm_outline_width a))])))
      | _ \<Rightarrow> Inl (AttributeError ''color''))"

definition convert_character_marker_symbol_layer :: "symbol_layer \<Rightarrow> dict result" where
  "convert_character_marker_symbol_layer layer =
     (case layer of
        CharacterMarkerSymbolLayer b a \<Rightarrow>
          (case read_model (cm_color a) of
             Inl e \<Rightarrow> Inl e
           | Inr color_model \<Rightarrow>
               (let out = [(''color'', convert_color (cm_color a)),
                           (''color_model'', color_model),
                           (''unicode'', cm_unicode a),
                           (''font'', cm_font a),
                           (''std_font'', VNone),
                           (''size'', VNum (cm_size a)),
                           (''angle'', VNum (cm_angle a)),
                           (''x_offset'', VNum (cm_x_offset a)),
                           (''y_offset'', VNum (cm_y_offset a))]
                in case cm_std_font a of
                     None \<Rightarrow> Inr out
                   | Some f \<Rightarrow> Inr (dict_set out ''std_font'' (VDict (convert_font f)))))
      | _ \<Rightarrow> Inl (AttributeError ''color''))"

definition convert_arrow_marker_symbol_layer :: "symbol_layer \<Rightarrow> dict result" where
  "convert_arrow_marker_symbol_layer layer =
     (case layer of
        ArrowMarkerSymbolLayer b a \<Rightarrow>
          (case read_model (am_color a) of
             Inl e \<Rightarrow> Inl e
           | Inr color_model \<Rightarrow>
               Inr [(''color'', convert_color (am_color a)),
                    (''color_model'', color_model),
                    (''size'', VNum (am_size a)),
                    (''width'', VNum (am_width a)),
                    (''angle'', VNum (am_angle a)),
                    (''x_offset'', VNum (am_x_offset a)),
                    (''y_offset'', VNum (am_y_offset a))])
      | _ \<Rightarrow> Inl (AttributeError ''color''))"

definition convert_picture_marker_symbol_layer ::
  "externals \<Rightarrow> symbol_layer \<Rightarrow> dict result" where
  "convert_picture_marker_symbol_layer X layer =
     (case layer of
        PictureMarkerSymbolLayer b a \<Rightarrow>
          (case read_model (pm_color_foreground a) of
             Inl e \<Rightarrow> Inl e
           | Inr color_foreground_model \<Rightarrow>
          (case read_model (pm_color_background a) of
             Inl e \<Rightarrow> Inl e
           | Inr color_background_model \<Rightarrow>
          (case convert_picture X (pm_picture a) of
             Inl e \<Rightarrow> Inl e
           | Inr picture \<Rightarrow>
               Inr [(''color_foreground'', convert_color (pm_color_foreground a)),
                    (''color_foreground_model'', color_foreground_model),
                    (''color_background'', convert_color (pm_color_background a)),
                    (''color_background_model'', color_background_model),
                    (''color_transparent'', convert_color (pm_color_transparent a)),
                    (''color_transparent_model'',
                       read_model_or_None (pm_color_transparent a)),
                    (''size'', VNum (pm_size a)),
                    (''angle'', VNum (pm_angle a)),
                    (''x_offset'', VNum (pm_x_offset a)),
                    (''y_offset'', VNum (pm_y_offset a)),
                    (''swap_fg_bg'', VBool (pm_swap_fb_gb a)),
                    (''picture'', picture)])))
      | _ \<Rightarrow> Inl (AttributeError ''color_foreground''))"

definition convert_marker_symbol_layer :: "externals \<Rightarrow> symbol_layer \<Rightarrow> dict result" where
  "convert_marker_symbol_layer X layer =
     (case layer of
        SimpleMarkerSymbolLayer _ _ \<Rightarrow> convert_simple_marker_symbol_layer layer
      | CharacterMarkerSymbolLayer _ _ \<Rightarrow> convert_character_marker_symbol_layer layer
      | ArrowMarkerSymbolLayer _ _ \<Rightarrow> convert_arrow_marker_symbol_layer layer
      | PictureMarkerSymbolLayer _ _ \<Rightarrow> convert_picture_marker_symbol_layer X layer
      | _ \<Rightarrow> Inl (NotImplementedException (ClassName (layer_class_name layer))))"

section \<open>The flat fill and line layers\<close>

definition convert_color_symbol :: "symbol_layer \<Rightarrow> dict result" where
  "convert_color_symbol layer =
     (case layer of
        ColorSymbol b color \<Rightarrow>
          (case read_model color of
             Inl e \<Rightarrow> Inl e
           | Inr color_model \<Rightarrow>
               Inr [(''color'', convert_color color), (''color_model'', color_model)])
      | _ \<Rightarrow> Inl (AttributeError ''color''))"

definition convert_simple_line_symbol_layer :: "symbol_layer \<Rightarrow> dict result" where
  "convert_simple_line_symbol_layer layer =
     (case layer of
        SimpleLineSymbolLayer b a \<Rightarrow>
          (case read_model (sl_color a) of
             Inl e \<Rightarrow> Inl e
           | Inr color_model \<Rightarrow>
               Inr [(''color'', convert_color (sl_color a)),
                    (''color_model'', color_model),
                    (''width'', VNum (sl_width a)),
                    (''line_type'', sl_line_type a)])
      | _ \<Rightarrow> Inl (AttributeError ''color''))"

section \<open>Symbols and the recursive layers\<close>

text \<open>
  Modelled from the spec: \<open>Converter.convert_symbol\<close> (the base class in
  \<open>slyr.converters.converter\<close>) is called by \<open>DictionaryConverter.convert_symbol\<close>
  and is not in the source. By sections 2 and 4.1 of the spec it finds the category
  (fill, line or marker) of a symbol or of a bare layer and calls the converter of that
  category; a layer of no family is an unsupported variant.

  The methods \<open>convert_fill_symbol\<close>, \<open>convert_line_symbol\<close> and
  \<open>convert_marker_symbol\<close> assign the accumulator \<open>self.out\<close> and fill its
  \<open>levels\<close>; \<open>convert_symbol\<close> returns it. No other method writes it, and every
  nested call of \<open>convert_symbol\<close> is made on a new \<open>DictionaryConverter\<close>, so
  the accumulator of a conversion is the value these functions return. The loop over
  \<open>symbol.levels\<close> is \<open>sequence\<close> over the converted layers, in order.

  Reading \<open>symbol.halo\<close> of a value that is not a \<open>MarkerSymbol\<close> raises
  AttributeError: by section 3 of the spec only a \<open>MarkerSymbol\<close> carries the halo
  attributes.
\<close>

text \<open>Two facts about sizes, for the termination proof.\<close>

lemma size_member: "x \<in> set xs \<Longrightarrow> size x < size_list size xs"
  by (induction xs) auto

lemma size_levels: "n < size_list size (levels s) \<Longrightarrow> n < size s"
  by (cases s) auto

function convert_symbol :: "externals \<Rightarrow> symbol_or_layer \<Rightarrow> dict result"
and convert_fill_symbol :: "externals \<Rightarrow> symbol_or_layer \<Rightarrow> dict result"
and convert_line_symbol :: "externals \<Rightarrow> symbol_or_layer \<Rightarrow> dict result"
and convert_marker_symbol :: "externals \<Rightarrow> symbol_or_layer \<Rightarrow> dict result"
and convert_symbol_layer :: "externals \<Rightarrow> symbol_layer \<Rightarrow> dict result"
and convert_fill_symbol_layer :: "externals \<Rightarrow> symbol_layer \<Rightarrow> dict result"
and convert_simple_fill_symbol_layer :: "externals \<Rightarrow> symbol_layer \<Rightarrow> dict result"
and convert_gradient_fill_symbol_layer :: "externals \<Rightarrow> symbol_layer \<Rightarrow> dict result"
and convert_line_fill_symbol_layer :: "externals \<Rightarrow> symbol_layer \<Rightarrow> dict result"
and convert_marker_fill_symbol_layer :: "externals \<Rightarrow> symbol_layer \<Rightarrow> dict result"
and convert_picture_fill_symbol_layer :: "externals \<Rightarrow> symbol_layer \<Rightarrow> dict result"
and convert_line_symbol_layer :: "externals \<Rightarrow> symbol_layer \<Rightarrow> dict result"
and convert_decoration :: "externals \<Rightarrow> decoration \<Rightarrow> dict result"
and convert_simple_line_decoration :: "externals \<Rightarrow> decoration \<Rightarrow> dict result"
and convert_cartographic_line_symbol_layer :: "externals \<Rightarrow> symbol_layer \<Rightarrow> dict result"
and convert_marker_line_symbol_layer :: "externals \<Rightarrow> symbol_layer \<Rightarrow> dict result"
and convert_hash_line_symbol_layer :: "externals \<Rightarrow> symbol_layer \<Rightarrow> dict result"
where
  "convert_symbol X symbol =
     (case symbol of
        IsSymbol s \<Rightarrow>
          (case s of
             FillSymbol _ \<Rightarrow> convert_fill_symbol X symbol
           | LineSymbol _ \<Rightarrow> convert_line_symbol X symbol
           | MarkerSymbol _ _ _ \<Rightarrow> convert_marker_symbol X symbol)
      | IsLayer layer \<Rightarrow>
          (if is_FillSymbolLayer layer then convert_fill_symbol X symbol
           else if is_LineSymbolLayer layer then convert_line_symbol X symbol
           else if is_MarkerSymbolLayer layer then convert_marker_symbol X symbol
           else Inl (NotImplementedException (ClassName (layer_class_name layer)))))"
| "convert_fill_symbol X symbol =
     (let out = [(''type'', VStr ''FillSymbol''), (''levels'', VList [])]
      in case symbol of
           IsLayer layer \<Rightarrow>
             (case convert_symbol_layer X layer of
                Inl e \<Rightarrow> Inl e
              | Inr d \<Rightarrow> Inr (dict_set out ''levels'' (VList [VDict d])))
         | IsSymbol s \<Rightarrow>
             (case sequence (map (convert_symbol_layer X) (levels s)) of
                Inl e \<Rightarrow> Inl e
              | Inr ds \<Rightarrow> Inr (dict_set out ''levels'' (VList (map VDict ds)))))"
| "convert_line_symbol X symbol =
     (let out = [(''type'', VStr ''LineSymbol''), (''levels'', VList [])]
      in case symbol of
           IsLayer layer \<Rightarrow>
             (case convert_symbol_layer X layer of
                Inl e \<Rightarrow> Inl e
              | Inr d \<Rightarrow> Inr (dict_set out ''levels'' (VList [VDict d])))
         | IsSymbol s \<Rightarrow>
             (case sequence (map (convert_symbol_layer X) (levels s)) of
                Inl e \<Rightarrow> Inl e
              | Inr ds \<Rightarrow> Inr (dict_set out ''levels'' (VList (map VDict ds)))))"
| "convert_marker_symbol X symbol =
     (case symbol of
        IsLayer _ \<Rightarrow> Inl (AttributeError ''halo'')
      | IsSymbol s \<Rightarrow>
      (case s of
        MarkerSymbol h halo_symbol ls \<Rightarrow>
          (let out = [(''type'', VStr ''MarkerSymbol''),
                      (''levels'', VList []),
                      (''halo'', VBool (halo h)),
                      (''halo_size'', VNum (halo_size h)),
                      (''halo_symbol_type'', VStr (type_name_of_halo_symbol halo_symbol))]
           in case (case halo_symbol of
                      None \<Rightarrow> Inr out
                    | Some hs \<Rightarrow>
                        (if is_FillSymbol hs
                         then (case convert_symbol X (IsSymbol hs) of
                                 Inl e \<Rightarrow> Inl e
                               | Inr d \<Rightarrow> Inr (dict_set out ''halo_symbol'' (VDict d)))
                         else Inr out)) of
                Inl e \<Rightarrow> Inl e
              | Inr out \<Rightarrow>
                  (case sequence (map (convert_symbol_layer X) ls) of
                     Inl e \<Rightarrow> Inl e
                   | Inr ds \<Rightarrow> Inr (dict_set out ''levels'' (VList (map VDict ds)))))
      | _ \<Rightarrow> Inl (AttributeError ''halo'')))"
| "convert_symbol_layer X layer =
     (case (if is_FillSymbolLayer layer then convert_fill_symbol_layer X layer
            else if is_LineSymbolLayer layer then convert_line_symbol_layer X layer
            else if is_MarkerSymbolLayer layer then convert_marker_symbol_layer X layer
            else Inl (NotImplementedException (ClassName (layer_class_name layer)))) of
        Inl e \<Rightarrow> Inl e
      | Inr out \<Rightarrow>
          (let out = dict_set out ''type'' (VStr (layer_class_name layer));
               out = dict_set out ''enabled'' (VBool (enabled (base layer)));
               out = dict_set out ''locked'' (VBool (locked (base layer)))
           in case tags (base layer) of
                None \<Rightarrow> Inr out
              | Some ts \<Rightarrow>
                  (if ts = [] then Inr out
                   else Inr (dict_set out ''tags'' (VList (map VStr ts))))))"
| "convert_fill_symbol_layer X layer =
     (case layer of
        SimpleFillSymbolLayer _ _ _ _ \<Rightarrow> convert_simple_fill_symbol_layer X layer
      | ColorSymbol _ _ \<Rightarrow> convert_color_symbol layer
      | GradientFillSymbolLayer _ _ _ _ \<Rightarrow> convert_gradient_fill_symbol_layer X layer
      | LineFillSymbolLayer _ _ _ _ _ \<Rightarrow> convert_line_fill_symbol_layer X layer
      | MarkerFillSymbolLayer _ _ _ _ _ \<Rightarrow> convert_marker_fill_symbol_layer X layer
      | PictureFillSymbolLayer _ _ _ _ \<Rightarrow> convert_picture_fill_symbol_layer X layer
      | _ \<Rightarrow> Inl (NotImplementedException (ClassName (layer_class_name layer))))"
| "convert_simple_fill_symbol_layer X layer =
     (case layer of
        SimpleFillSymbolLayer b color outline_layer outline_symbol \<Rightarrow>
          (case read_model color of
             Inl e \<Rightarrow> Inl e
           | Inr color_model \<Rightarrow>
          (let out = [(''color'', convert_color color), (''color_model'', color_model)]
           in case (case outline_layer of
                      None \<Rightarrow> Inr out
                    | Some ol \<Rightarrow>
                        (case convert_symbol_layer X ol of
                           Inl e \<Rightarrow> Inl e
                         | Inr d \<Rightarrow> Inr (dict_set out ''outline_layer'' (VDict d)))) of
                Inl e \<Rightarrow> Inl e
              | Inr out \<Rightarrow>
                  (case outline_symbol of
                     None \<Rightarrow> Inr out
                   | Some os \<Rightarrow>
                       (case convert_symbol X (IsSymbol os) of
                          Inl e \<Rightarrow> Inl e
                        | Inr d \<Rightarrow> Inr (dict_set out ''outline_symbol'' (VDict d))))))
      | _ \<Rightarrow> Inl (AttributeError ''outline_layer''))"
| "convert_gradient_fill_symbol_layer X layer =
     (case layer of
        GradientFillSymbolLayer b a outline_layer outline_symbol \<Rightarrow>
          (case (case outline_layer of
                   None \<Rightarrow> Inr []
                 | Some ol \<Rightarrow>
                     (case convert_symbol_layer X ol of
                        Inl e \<Rightarrow> Inl e
                      | Inr d \<Rightarrow> Inr (dict_set [] ''outline_layer'' (VDict d)))) of
             Inl e \<Rightarrow> Inl e
           | Inr out \<Rightarrow>
          (case (case outline_symbol of
                   None \<Rightarrow> Inr out
                 | Some os \<Rightarrow>
                     (case convert_symbol X (IsSymbol os) of
                        Inl e \<Rightarrow> Inl e
                      | Inr d \<Rightarrow> Inr (dict_set out ''outline_symbol'' (VDict d)))) of
             Inl e \<Rightarrow> Inl e
           | Inr out \<Rightarrow>
          (let out = dict_set out ''ramp'' (VDict (ramp_to_dict (gf_ramp a)));
               out = dict_set out ''percent'' (VNum (gf_percent a));
               out = dict_set out ''angle'' (VNum (gf_angle a));
               out = dict_set out ''intervals'' (VNum (gf_intervals a))
           in case convert_gradient_type X (gf_type a) of
                Inl e \<Rightarrow> Inl e
              | Inr g \<Rightarrow> Inr (dict_set out ''gradient_type'' (VStr g)))))
      | _ \<Rightarrow> Inl (AttributeError ''outline_layer''))"
| "convert_line_fill_symbol_layer X layer =
     (case layer of
        LineFillSymbolLayer b a line outline_layer outline_symbol \<Rightarrow>
          (case (case outline_layer of
                   None \<Rightarrow> Inr []
                 | Some ol \<Rightarrow>
                     (case convert_symbol_layer X ol of
                        Inl e \<Rightarrow> Inl e
                      | Inr d \<Rightarrow> Inr (dict_set [] ''outline_layer'' (VDict d)))) of
             Inl e \<Rightarrow> Inl e
           | Inr out \<Rightarrow>
          (case (case outline_symbol of
                   None \<Rightarrow> Inr out
                 | Some os \<Rightarrow>
                     (case convert_symbol X (IsSymbol os) of
                        Inl e \<Rightarrow> Inl e
                      | Inr d \<Rightarrow> Inr (dict_set out ''outline_symbol'' (VDict d)))) of
             Inl e \<Rightarrow> Inl e
           | Inr out \<Rightarrow>
          (case (case line of
                   IsSymbol s \<Rightarrow> convert_symbol X line
                 | IsLayer l \<Rightarrow> convert_symbol_layer X l) of
             Inl e \<Rightarrow> Inl e
           | Inr d \<Rightarrow>
          (let out = dict_set out ''line_symbol'' (VDict d);
               out = dict_set out ''angle'' (VNum (lf_angle a));
               out = dict_set out ''offset'' (VNum (lf_offset a));
               out = dict_set out ''separation'' (VNum (lf_separation a))
           in Inr out))))
      | _ \<Rightarrow> Inl (AttributeError ''outline_layer''))"
| "convert_marker_fill_symbol_layer X layer =
     (case layer of
        MarkerFillSymbolLayer b a marker outline_layer outline_symbol \<Rightarrow>
          (case (case outline_layer of
                   None \<Rightarrow> Inr []
                 | Some ol \<Rightarrow>
                     (case convert_symbol_layer X ol of
                        Inl e \<Rightarrow> Inl e
                      | Inr d \<Rightarrow> Inr (dict_set [] ''outline_layer'' (VDict d)))) of
             Inl e \<Rightarrow> Inl e
           | Inr out \<Rightarrow>
          (case (case outline_symbol of
                   None \<Rightarrow> Inr out
                 | Some os \<Rightarrow>
                     (case convert_symbol X (IsSymbol os) of
                        Inl e \<Rightarrow> Inl e
                      | Inr d \<Rightarrow> Inr (dict_set out ''outline_symbol'' (VDict d)))) of
             Inl e \<Rightarrow> Inl e
           | Inr out \<Rightarrow>
          (case (case marker of
                   IsSymbol s \<Rightarrow> convert_symbol X marker
                 | IsLayer l \<Rightarrow> convert_symbol_layer X l) of
             Inl e \<Rightarrow> Inl e
           | Inr d \<Rightarrow>
          (let out = dict_set out ''marker'' (VDict d);
               out = dict_set out ''offset_x'' (VNum (mf_offset_x a));
               out = dict_set out ''offset_y'' (VNum (mf_offset_y a));
               out = dict_set out ''separation_x'' (VNum (mf_separation_x a));
               out = dict_set out ''separation_y'' (VNum (mf_separation_y a));
               out = dict_set out ''random'' (VBool (mf_random a))
           in Inr out))))
      | _ \<Rightarrow> Inl (AttributeError ''outline_layer''))"
| "convert_picture_fill_symbol_layer X layer =
     (case layer of
        PictureFillSymbolLayer b a outline_layer outline_symbol \<Rightarrow>
          (case read_model (pf_color_background a) of
             Inl e \<Rightarrow> Inl e
           | Inr color_background_model \<Rightarrow>
          (let out = [(''color_foreground'', convert_color (pf_color_foreground a)),
                      (''color_foreground_model'', read_model_or_None (pf_color_foreground a)),
                      (''color_background'', convert_color (pf_color_background a)),
                      (''color_background_model'', color_background_model),
                      (''color_transparent'', convert_color (pf_color_transparent a)),
                      (''color_transparent_model'',
                         read_model_or_None (pf_color_transparent a)),
                      (''swap_fg_bg'', VBool (pf_swap_fb_gb a))]
           in
           case (case outline_layer of
                   None \<Rightarrow> Inr out
                 | Some ol \<Rightarrow>
                     (case convert_symbol_layer X ol of
                        Inl e \<Rightarrow> Inl e
                      | Inr d \<Rightarrow> Inr (dict_set out ''outline_layer'' (VDict d)))) of
             Inl e \<Rightarrow> Inl e
           | Inr out \<Rightarrow>
          (case (case outline_symbol of
                   None \<Rightarrow> Inr out
                 | Some os \<Rightarrow>
                     (case convert_symbol X (IsSymbol os) of
                        Inl e \<Rightarrow> Inl e
                      | Inr d \<Rightarrow> Inr (dict_set out ''outline_symbol'' (VDict d)))) of
             Inl e \<Rightarrow> Inl e
           | Inr out \<Rightarrow>
          (case convert_picture X (pf_picture a) of
             Inl e \<Rightarrow> Inl e
           | Inr picture \<Rightarrow>
          (let out = dict_set out ''picture'' picture;
               out = dict_set out ''angle'' (VNum (pf_angle a));
               out = dict_set out ''scale_x'' (VNum (pf_scale_x a));
               out = dict_set out ''scale_y'' (VNum (pf_scale_y a));
               out = dict_set out ''offset_x'' (VNum (pf_offset_x a));
               out = dict_set out ''offset_y'' (VNum (pf_offset_y a));
               out = dict_set out ''separation_x'' (VNum (pf_separation_x a));
               out = dict_set out ''separation_y'' (VNum (pf_separation_y a))
           in Inr out)))))
      | _ \<Rightarrow> Inl (AttributeError ''color_foreground''))"
| "convert_line_symbol_layer X layer =
     (case layer of
        SimpleLineSymbolLayer _ _ \<Rightarrow> convert_simple_line_symbol_layer layer
      | CartographicLineSymbolLayer _ _ _ \<Rightarrow> convert_cartographic_line_symbol_layer X layer
      | HashLineSymbolLayer _ _ _ _ \<Rightarrow> convert_hash_line_symbol_layer X layer
      | MarkerLineSymbolLayer _ _ _ _ \<Rightarrow> convert_marker_line_symbol_layer X layer
      | _ \<Rightarrow> Inl (NotImplementedException (ClassName (layer_class_name layer))))"
| "convert_decoration X decoration =
     (case decoration of
        LineDecoration decorations \<Rightarrow>
          (case sequence
                  (map (\<lambda>d. case d of
                               LineDecoration _ \<Rightarrow> convert_decoration X d
                             | SimpleLineDecoration _ _ \<Rightarrow> convert_simple_line_decoration X d)
                       decorations) of
             Inl e \<Rightarrow> Inl e
           | Inr ds \<Rightarrow> Inr [(''decorations'', VList (map VDict ds))])
      | _ \<Rightarrow> Inl (AttributeError ''decorations''))"
| "convert_simple_line_decoration X layer =
     (case layer of
        SimpleLineDecoration a marker \<Rightarrow>
          (let out = [(''fixed_angle'', VBool (fixed_angle a)),
                      (''flip_first'', VBool (flip_first a)),
                      (''flip_all'', VBool (flip_all a)),
                      (''marker'', VNone),
                      (''positions'', VList (map VNum (marker_positions a)))]
           in case marker of
                None \<Rightarrow> Inr out
              | Some m \<Rightarrow>
                  (case (case m of
                           IsLayer l \<Rightarrow> convert_symbol_layer X l
                         | IsSymbol _ \<Rightarrow> convert_symbol X m) of
                     Inl e \<Rightarrow> Inl e
                   | Inr d \<Rightarrow> Inr (dict_set out ''marker'' (VDict d))))
      | _ \<Rightarrow> Inl (AttributeError ''fixed_angle''))"
| "convert_cartographic_line_symbol_layer X layer =
     (case layer of
        CartographicLineSymbolLayer b a decoration \<Rightarrow>
          (case read_model (cl_color a) of
             Inl e \<Rightarrow> Inl e
           | Inr color_model \<Rightarrow>
          (let out = [(''color'', convert_color (cl_color a)),
                      (''color_model'', color_model),
                      (''width'', VNum (cl_width a)),
                      (''offset'', VNum (cl_offset a)),
                      (''cap'', cl_cap a),
                      (''join'', cl_join a),
                      (''template'', VNone),
                      (''decoration'', VNone)];
               out = (case cl_template a of
                        None \<Rightarrow> out
                      | Some t \<Rightarrow> dict_set out ''template'' (VDict (convert_template t)))
           in case decoration of
                None \<Rightarrow> Inr out
              | Some d \<Rightarrow>
                  (case (case d of
                           LineDecoration _ \<Rightarrow> convert_decoration X d
                         | SimpleLineDecoration _ _ \<Rightarrow> convert_simple_line_decoration X d) of
                     Inl e \<Rightarrow> Inl e
                   | Inr dd \<Rightarrow> Inr (dict_set out ''decoration'' (VDict dd)))))
      | _ \<Rightarrow> Inl (AttributeError ''width''))"
| "convert_marker_line_symbol_layer X layer =
     (case layer of
        MarkerLineSymbolLayer b a pattern_marker decoration \<Rightarrow>
          (let out = [(''color'', convert_color (ml_color a)),
                      (''color_model'', read_model_or_None (ml_color a)),
                      (''offset'', VNum (ml_offset a)),
                      (''cap'', ml_cap a),
                      (''join'', ml_join a),
                      (''template'', VNone),
                      (''pattern_marker'', VNone),
                      (''decoration'', VNone)];
               out = (case ml_template a of
                        None \<Rightarrow> out
                      | Some t \<Rightarrow> dict_set out ''template'' (VDict (convert_template t)))
           in case (case pattern_marker of
                      None \<Rightarrow> Inr out
                    | Some m \<Rightarrow>
                        (case (case m of
                                 IsLayer l \<Rightarrow> convert_symbol_layer X l
                               | IsSymbol _ \<Rightarrow> convert_symbol X m) of
                           Inl e \<Rightarrow> Inl e
                         | Inr d \<Rightarrow> Inr (dict_set out ''pattern_marker'' (VDict d)))) of
                Inl e \<Rightarrow> Inl e
              | Inr out \<Rightarrow>
                  (case decoration of
                     None \<Rightarrow> Inr out
                   | Some d \<Rightarrow>
                       (case (case d of
                                LineDecoration _ \<Rightarrow> convert_decoration X d
                              | SimpleLineDecoration _ _ \<Rightarrow>
                                  convert_simple_line_decoration X d) of
                          Inl e \<Rightarrow> Inl e
                        | Inr dd \<Rightarrow> Inr (dict_set out ''decoration'' (VDict dd)))))
      | _ \<Rightarrow> Inl (AttributeError ''offset''))"
| "convert_hash_line_symbol_layer X layer =
     (case layer of
        HashLineSymbolLayer b a line decoration \<Rightarrow>
          (case read_model (hl_color a) of
             Inl e \<Rightarrow> Inl e
           | Inr color_model \<Rightarrow>
          (let out = [(''color'', convert_color (hl_color a)),
                      (''color_model'', color_model),
                      (''width'', VNum (hl_width a)),
                      (''offset'', VNum (hl_offset a)),
                      (''cap'', hl_cap a),
                      (''join'', hl_join a),
                      (''template'', VNone),
                      (''decoration'', VNone),
                      (''line'', VNone)];
               out = (case hl_template a of
                        None \<Rightarrow> out
                      | Some t \<Rightarrow> dict_set out ''template'' (VDict (convert_template t)))
           in case (case line of
                      None \<Rightarrow> Inr out
                    | Some m \<Rightarrow>
                        (case (case m of
                                 IsLayer l \<Rightarrow> convert_symbol_layer X l
                               | IsSymbol _ \<Rightarrow> convert_symbol X m) of
                           Inl e \<Rightarrow> Inl e
                         | Inr d \<Rightarrow> Inr (dict_set out ''line'' (VDict d)))) of
                Inl e \<Rightarrow> Inl e
              | Inr out \<Rightarrow>
                  (case decoration of
                     None \<Rightarrow> Inr out
                   | Some d \<Rightarrow>
                       (case (case d of
                                LineDecoration _ \<Rightarrow> convert_decoration X d
                              | SimpleLineDecoration _ _ \<Rightarrow>
                                  convert_simple_line_decoration X d) of
                          Inl e \<Rightarrow> Inl e
                        | Inr dd \<Rightarrow> Inr (dict_set out ''decoration'' (VDict dd))))))
      | _ \<Rightarrow> Inl (AttributeError ''width''))"
  by pat_completeness auto

termination
  apply (relation "measure
    (case_sum
      (case_sum
        (case_sum
          (case_sum (\<lambda>(X, x). 3 * size x + 1) (\<lambda>(X, x). 3 * size x))
          (case_sum (\<lambda>(X, x). 3 * size x) (\<lambda>(X, x). 3 * size x)))
        (case_sum
          (case_sum (\<lambda>(X, x). 3 * size x + 2) (\<lambda>(X, x). 3 * size x + 1))
          (case_sum (\<lambda>(X, x). 3 * size x) (\<lambda>(X, x). 3 * size x))))
      (case_sum
        (case_sum
          (case_sum (\<lambda>(X, x). 3 * size x) (\<lambda>(X, x). 3 * size x))
          (case_sum (\<lambda>(X, x). 3 * size x) (\<lambda>(X, x). 3 * size x + 1)))
        (case_sum
          (case_sum (\<lambda>(X, x). 3 * size x) (\<lambda>(X, x). 3 * size x))
          (case_sum (\<lambda>(X, x). 3 * size x)
             (case_sum (\<lambda>(X, x). 3 * size x) (\<lambda>(X, x). 3 * size x))))))")
  apply (auto dest!: size_member size_levels)
  done

declare convert_symbol.simps [simp del] convert_fill_symbol.simps [simp del]
  convert_line_symbol.simps [simp del] convert_marker_symbol.simps [simp del]
  convert_symbol_layer.simps [simp del] convert_fill_symbol_layer.simps [simp del]
  convert_simple_fill_symbol_layer.simps [simp del]
  convert_gradient_fill_symbol_layer.simps [simp del]
  convert_line_fill_symbol_layer.simps [simp del]
  convert_marker_fill_symbol_layer.simps [simp del]
  convert_picture_fill_symbol_layer.simps [simp del]
  convert_line_symbol_layer.simps [simp del] convert_decoration.simps [simp del]
  convert_simple_line_decoration.simps [simp del]
  convert_cartographic_line_symbol_layer.simps [simp del]
  convert_marker_line_symbol_layer.simps [simp del]
  convert_hash_line_symbol_layer.simps [simp del]

section \<open>Definitions used to state the properties\<close>

text \<open>
  The base map of a layer: the first four branches of \<open>convert_symbol_layer\<close>, before
  the universal fields are written.
\<close>

definition family_convert :: "externals \<Rightarrow> symbol_layer \<Rightarrow> dict result" where
  "family_convert X layer =
     (if is_FillSymbolLayer layer then convert_fill_symbol_layer X layer
      else if is_LineSymbolLayer layer then convert_line_symbol_layer X layer
      else if is_MarkerSymbolLayer layer then convert_marker_symbol_layer X layer
      else Inl (NotImplementedException (ClassName (layer_class_name layer))))"

text \<open>\<open>if layer.tags\<close>: the tags are neither \<open>None\<close> nor empty.\<close>

definition has_tags :: "symbol_layer \<Rightarrow> bool" where
  "has_tags layer = (case tags (base layer) of None \<Rightarrow> False | Some ts \<Rightarrow> ts \<noteq> [])"

text \<open>The last five statements of \<open>convert_symbol_layer\<close>, applied to a base map.\<close>

definition universal_fields :: "symbol_layer \<Rightarrow> dict \<Rightarrow> dict" where
  "universal_fields layer out0 =
     (let out = dict_set out0 ''type'' (VStr (layer_class_name layer));
          out = dict_set out ''enabled'' (VBool (enabled (base layer)));
          out = dict_set out ''locked'' (VBool (locked (base layer)))
      in case tags (base layer) of
           None \<Rightarrow> out
         | Some ts \<Rightarrow> (if ts = [] then out else dict_set out ''tags'' (VList (map VStr ts))))"

text \<open>
  The conversion of a \<open>decoration\<close> attribute that is not \<open>None\<close>, as the three
  line layers with a decoration and the loop of \<open>convert_decoration\<close> write it out.
\<close>

definition convert_line_decoration :: "externals \<Rightarrow> decoration \<Rightarrow> dict result" where
  "convert_line_decoration X d =
     (case d of
        LineDecoration _ \<Rightarrow> convert_decoration X d
      | SimpleLineDecoration _ _ \<Rightarrow> convert_simple_line_decoration X d)"

text \<open>
  The entry that \<open>convert_marker_symbol\<close> adds for the halo symbol: none unless
  the halo symbol is a \<open>FillSymbol\<close>.
\<close>

definition halo_entry :: "externals \<Rightarrow> symbol option \<Rightarrow> dict result" where
  "halo_entry X hs =
     (case hs of
        None \<Rightarrow> Inr []
      | Some s \<Rightarrow>
          (if is_FillSymbol s
           then (case convert_symbol X (IsSymbol s) of
                   Inl e \<Rightarrow> Inl e
                 | Inr d \<Rightarrow> Inr [(''halo_symbol'', VDict d)])
           else Inr []))"

text \<open>Concrete inputs, for the examples.\<close>

definition sample_externals :: externals where
  "sample_externals =
     \<lparr>LINEAR = 0, CIRCULAR = 1, BUFFERED = 2, RECTANGULAR = 3,
      to_base64_png = (\<lambda>content. ''cG5n''), to_base64 = (\<lambda>content. ''ZW1m'')\<rparr>"

definition red :: color where
  "red = \<lparr>model = ''rgb'', to_dict = [(''R'', VNum 255), (''G'', VNum 0), (''B'', VNum 0)]\<rparr>"

definition plain :: layer_base where
  "plain = \<lparr>enabled = True, locked = False, tags = Some []\<rparr>"

definition sample_marker :: symbol_layer where
  "sample_marker =
     SimpleMarkerSymbolLayer plain
       \<lparr>sm_color = Some red, sm_type = VStr ''circle'', sm_size = 8, sm_x_offset = 0,
        sm_y_offset = 0, sm_outline_enabled = False, sm_outline_color = Some red,
        sm_outline_width = 1\<rparr>"

definition sample_cartographic :: symbol_layer where
  "sample_cartographic =
     CartographicLineSymbolLayer plain
       \<lparr>cl_color = Some red, cl_width = 1, cl_offset = 0, cl_cap = VStr ''butt'',
        cl_join = VStr ''miter'',
        cl_template = Some \<lparr>pattern_interval = 4, pattern_parts = [2, 2]\<rparr>\<rparr>
       None"

definition sample_marker_line :: symbol_layer where
  "sample_marker_line =
     MarkerLineSymbolLayer plain
       \<lparr>ml_color = None, ml_offset = 0, ml_cap = VStr ''butt'', ml_join = VStr ''miter'',
        ml_template = None\<rparr>
       None None"

definition sample_hash_line :: symbol_layer where
  "sample_hash_line =
     HashLineSymbolLayer plain
       \<lparr>hl_color = Some red, hl_width = 1, hl_offset = 0, hl_cap = VStr ''butt'',
        hl_join = VStr ''miter'', hl_template = None\<rparr>
       None None"

definition sample_character_marker :: symbol_layer where
  "sample_character_marker =
     CharacterMarkerSymbolLayer plain
       \<lparr>cm_color = Some red, cm_unicode = VNum 65, cm_font = VStr ''ESRI Default Marker'',
        cm_std_font = None, cm_size = 8, cm_angle = 0, cm_x_offset = 0, cm_y_offset = 0\<rparr>"

definition sample_picture_fill :: symbol_layer where
  "sample_picture_fill =
     PictureFillSymbolLayer plain
       \<lparr>pf_color_foreground = None, pf_color_background = Some red,
        pf_color_transparent = None, pf_swap_fb_gb = False,
        pf_picture = Some (BmpPicture [66, 77]), pf_angle = 0, pf_scale_x = 1, pf_scale_y = 1,
        pf_offset_x = 0, pf_offset_y = 0, pf_separation_x = 0, pf_separation_y = 0\<rparr>
       None None"

definition sample_picture_marker :: symbol_layer where
  "sample_picture_marker =
     PictureMarkerSymbolLayer plain
       \<lparr>pm_color_foreground = Some red, pm_color_background = Some red,
        pm_color_transparent = None, pm_size = 8, pm_angle = 0, pm_x_offset = 0,
        pm_y_offset = 0, pm_swap_fb_gb = False, pm_picture = None\<rparr>"

section \<open>Dictionaries\<close>

lemma dict_get_set: "dict_get (dict_set d k v) k' = (if k' = k then Some v else dict_get d k')"
  by (induction d) (auto simp: dict_get_def)

lemma dict_keys_set: "dict_keys (dict_set d k v) = insert k (dict_keys d)"
  unfolding dict_keys_def
proof (induction d)
  case Nil
  show ?case by simp
next
  case (Cons p d)
  obtain k' v' where p: "p = (k', v')" by (cases p)
  show ?case using Cons.IH by (simp add: p insert_commute)
qed

lemma dict_keys_Nil: "dict_keys [] = {}"
  by (simp add: dict_keys_def)

lemma dict_keys_Cons: "dict_keys ((k, v) # d) = insert k (dict_keys d)"
  by (simp add: dict_keys_def)

lemmas keys_simps = dict_keys_set dict_keys_Cons dict_keys_Nil

text \<open>Every defining equation, to evaluate a conversion on a concrete input.\<close>

lemmas eval_simps =
  convert_symbol.simps convert_fill_symbol.simps convert_line_symbol.simps
  convert_marker_symbol.simps convert_symbol_layer.simps convert_fill_symbol_layer.simps
  convert_simple_fill_symbol_layer.simps convert_gradient_fill_symbol_layer.simps
  convert_line_fill_symbol_layer.simps convert_marker_fill_symbol_layer.simps
  convert_picture_fill_symbol_layer.simps convert_line_symbol_layer.simps
  convert_decoration.simps convert_simple_line_decoration.simps
  convert_cartographic_line_symbol_layer.simps convert_marker_line_symbol_layer.simps
  convert_hash_line_symbol_layer.simps convert_marker_symbol_layer_def
  convert_simple_marker_symbol_layer_def convert_character_marker_symbol_layer_def
  convert_arrow_marker_symbol_layer_def convert_picture_marker_symbol_layer_def
  convert_color_symbol_def convert_simple_line_symbol_layer_def convert_picture_def
  unwrap_picture_def convert_gradient_type_def convert_template_def convert_font_def
  convert_color_def read_model_def read_model_or_None_def type_name_of_halo_symbol_def
  sample_externals_def red_def plain_def sample_marker_def Let_def dict_get_def dict_keys_def

lemmas sample_defs = sample_cartographic_def sample_marker_line_def sample_hash_line_def
  sample_character_marker_def sample_picture_fill_def sample_picture_marker_def

lemma dict_get_key: "dict_get d k = Some v \<Longrightarrow> k \<in> dict_keys d"
  by (auto simp: dict_get_def dict_keys_def dest: map_of_SomeD intro: rev_image_eqI)

section \<open>The layer router\<close>

lemma convert_symbol_layer_unfold:
  "convert_symbol_layer X l =
     (case family_convert X l of Inl e \<Rightarrow> Inl e | Inr b \<Rightarrow> Inr (universal_fields l b))"
  by (subst convert_symbol_layer.simps)
     (simp add: family_convert_def universal_fields_def Let_def split: sum.splits option.splits)

lemma universal_fields_get:
  "dict_get (universal_fields l b) k =
     (if k = ''tags'' \<and> has_tags l then Some (VList (map VStr (the (tags (base l)))))
      else if k = ''locked'' then Some (VBool (locked (base l)))
      else if k = ''enabled'' then Some (VBool (enabled (base l)))
      else if k = ''type'' then Some (VStr (layer_class_name l))
      else dict_get b k)"
  by (simp add: universal_fields_def has_tags_def Let_def dict_get_set split: option.splits)

lemma universal_fields_keys:
  "dict_keys (universal_fields l b) =
     dict_keys b \<union> {''type'', ''enabled'', ''locked''} \<union> (if has_tags l then {''tags''} else {})"
  by (auto simp: universal_fields_def has_tags_def Let_def dict_keys_set split: option.splits)

lemma marker_base_keys:
  "convert_marker_symbol_layer X l = Inr b \<Longrightarrow> ''tags'' \<notin> dict_keys b"
  by (auto simp: convert_marker_symbol_layer_def convert_simple_marker_symbol_layer_def
        convert_character_marker_symbol_layer_def convert_arrow_marker_symbol_layer_def
        convert_picture_marker_symbol_layer_def dict_keys_set dict_keys_Cons dict_keys_Nil Let_def
      split: symbol_layer.splits sum.splits option.splits)
lemma simple_fill_keys:
  "convert_simple_fill_symbol_layer X l = Inr b \<Longrightarrow> ''tags'' \<notin> dict_keys b"
  by (subst (asm) convert_simple_fill_symbol_layer.simps)
     (auto simp: keys_simps Let_def split: symbol_layer.splits sum.splits option.splits)

lemma gradient_fill_keys:
  "convert_gradient_fill_symbol_layer X l = Inr b \<Longrightarrow> ''tags'' \<notin> dict_keys b"
  by (subst (asm) convert_gradient_fill_symbol_layer.simps)
     (auto simp: keys_simps Let_def split: symbol_layer.splits sum.splits option.splits)

lemma line_fill_keys:
  "convert_line_fill_symbol_layer X l = Inr b \<Longrightarrow> ''tags'' \<notin> dict_keys b"
  by (subst (asm) convert_line_fill_symbol_layer.simps)
     (auto simp: keys_simps Let_def split: symbol_layer.splits sum.splits option.splits)

lemma marker_fill_keys:
  "convert_marker_fill_symbol_layer X l = Inr b \<Longrightarrow> ''tags'' \<notin> dict_keys b"
  by (subst (asm) convert_marker_fill_symbol_layer.simps)
     (auto simp: keys_simps Let_def split: symbol_layer.splits sum.splits option.splits)

lemma picture_fill_keys:
  "convert_picture_fill_symbol_layer X l = Inr b \<Longrightarrow> ''tags'' \<notin> dict_keys b"
  by (subst (asm) convert_picture_fill_symbol_layer.simps)
     (auto simp: keys_simps Let_def split: symbol_layer.splits sum.splits option.splits)

lemma color_symbol_keys:
  "convert_color_symbol l = Inr b \<Longrightarrow> ''tags'' \<notin> dict_keys b"
  by (auto simp: convert_color_symbol_def keys_simps split: symbol_layer.splits sum.splits)

lemma fill_base_keys:
  "convert_fill_symbol_layer X l = Inr b \<Longrightarrow> ''tags'' \<notin> dict_keys b"
  by (subst (asm) convert_fill_symbol_layer.simps)
     (auto split: symbol_layer.splits
        dest: simple_fill_keys gradient_fill_keys line_fill_keys marker_fill_keys
              picture_fill_keys color_symbol_keys)

lemma cartographic_keys:
  "convert_cartographic_line_symbol_layer X l = Inr b \<Longrightarrow> ''tags'' \<notin> dict_keys b"
  by (subst (asm) convert_cartographic_line_symbol_layer.simps)
     (auto simp: keys_simps Let_def split: symbol_layer.splits sum.splits option.splits)

lemma marker_line_keys:
  "convert_marker_line_symbol_layer X l = Inr b \<Longrightarrow> ''tags'' \<notin> dict_keys b"
  by (subst (asm) convert_marker_line_symbol_layer.simps)
     (auto simp: keys_simps Let_def split: symbol_layer.splits sum.splits option.splits)

lemma hash_line_keys:
  "convert_hash_line_symbol_layer X l = Inr b \<Longrightarrow> ''tags'' \<notin> dict_keys b"
  by (subst (asm) convert_hash_line_symbol_layer.simps)
     (auto simp: keys_simps Let_def split: symbol_layer.splits sum.splits option.splits)

lemma simple_line_keys:
  "convert_simple_line_symbol_layer l = Inr b \<Longrightarrow> ''tags'' \<notin> dict_keys b"
  by (auto simp: convert_simple_line_symbol_layer_def keys_simps
      split: symbol_layer.splits sum.splits)

lemma line_base_keys:
  "convert_line_symbol_layer X l = Inr b \<Longrightarrow> ''tags'' \<notin> dict_keys b"
  by (subst (asm) convert_line_symbol_layer.simps)
     (auto split: symbol_layer.splits
        dest: cartographic_keys marker_line_keys hash_line_keys simple_line_keys)

lemma family_base_keys:
  "family_convert X l = Inr b \<Longrightarrow> ''tags'' \<notin> dict_keys b"
  by (auto simp: family_convert_def split: if_splits
      dest: fill_base_keys line_base_keys marker_base_keys)

lemma family_convert_simps:
  "family_convert X (SimpleFillSymbolLayer b c ol os) =
     convert_simple_fill_symbol_layer X (SimpleFillSymbolLayer b c ol os)"
  "family_convert X (ColorSymbol b c) = convert_color_symbol (ColorSymbol b c)"
  "family_convert X (GradientFillSymbolLayer b g ol os) =
     convert_gradient_fill_symbol_layer X (GradientFillSymbolLayer b g ol os)"
  "family_convert X (LineFillSymbolLayer b lf p ol os) =
     convert_line_fill_symbol_layer X (LineFillSymbolLayer b lf p ol os)"
  "family_convert X (MarkerFillSymbolLayer b mf p ol os) =
     convert_marker_fill_symbol_layer X (MarkerFillSymbolLayer b mf p ol os)"
  "family_convert X (PictureFillSymbolLayer b pf ol os) =
     convert_picture_fill_symbol_layer X (PictureFillSymbolLayer b pf ol os)"
  "family_convert X (OtherFillSymbolLayer b n) = Inl (NotImplementedException (ClassName n))"
  "family_convert X (SimpleLineSymbolLayer b sl) =
     convert_simple_line_symbol_layer (SimpleLineSymbolLayer b sl)"
  "family_convert X (CartographicLineSymbolLayer b cl d) =
     convert_cartographic_line_symbol_layer X (CartographicLineSymbolLayer b cl d)"
  "family_convert X (MarkerLineSymbolLayer b ml pm d) =
     convert_marker_line_symbol_layer X (MarkerLineSymbolLayer b ml pm d)"
  "family_convert X (HashLineSymbolLayer b hl li d) =
     convert_hash_line_symbol_layer X (HashLineSymbolLayer b hl li d)"
  "family_convert X (OtherLineSymbolLayer b n) = Inl (NotImplementedException (ClassName n))"
  "family_convert X (SimpleMarkerSymbolLayer b sm) =
     convert_simple_marker_symbol_layer (SimpleMarkerSymbolLayer b sm)"
  "family_convert X (CharacterMarkerSymbolLayer b cm) =
     convert_character_marker_symbol_layer (CharacterMarkerSymbolLayer b cm)"
  "family_convert X (ArrowMarkerSymbolLayer b am) =
     convert_arrow_marker_symbol_layer (ArrowMarkerSymbolLayer b am)"
  "family_convert X (PictureMarkerSymbolLayer b pm') =
     convert_picture_marker_symbol_layer X (PictureMarkerSymbolLayer b pm')"
  "family_convert X (OtherMarkerSymbolLayer b n) = Inl (NotImplementedException (ClassName n))"
  "family_convert X (OtherSymbolLayer b n) = Inl (NotImplementedException (ClassName n))"
  by (simp_all add: family_convert_def convert_fill_symbol_layer.simps
        convert_line_symbol_layer.simps convert_marker_symbol_layer_def)

lemma layer_out_get:
  assumes "convert_symbol_layer X l = Inr out"
  obtains b where "family_convert X l = Inr b"
    and "\<And>k. k \<notin> {''type'', ''enabled'', ''locked'', ''tags''} \<Longrightarrow> dict_get out k = dict_get b k"
  using assms
  by (auto simp: convert_symbol_layer_unfold universal_fields_get split: sum.splits)

lemma cartographic_base:
  assumes "convert_cartographic_line_symbol_layer X (CartographicLineSymbolLayer b a dec) = Inr out"
  shows "dict_get out ''template'' =
           Some (case cl_template a of None \<Rightarrow> VNone | Some t \<Rightarrow> VDict (convert_template t))"
    and "dec = None \<Longrightarrow> dict_get out ''decoration'' = Some VNone"
    and "dec = Some d \<Longrightarrow> \<exists>dd. convert_line_decoration X d = Inr dd
           \<and> dict_get out ''decoration'' = Some (VDict dd)"
  using assms
  by (auto simp: convert_cartographic_line_symbol_layer.simps convert_line_decoration_def
      Let_def dict_get_set dict_get_def split: sum.splits option.splits decoration.splits)

lemma universal_fields_overlaid:
  assumes "convert_symbol_layer X l = Inr out"
  shows "\<exists>b. (is_FillSymbolLayer l \<and> convert_fill_symbol_layer X l = Inr b
              \<or> is_LineSymbolLayer l \<and> convert_line_symbol_layer X l = Inr b
              \<or> is_MarkerSymbolLayer l \<and> convert_marker_symbol_layer X l = Inr b)
            \<and> dict_get out ''type'' = Some (VStr (layer_class_name l))
            \<and> dict_get out ''enabled'' = Some (VBool (enabled (base l)))
            \<and> dict_get out ''locked'' = Some (VBool (locked (base l)))
            \<and> (''tags'' \<in> dict_keys out \<longleftrightarrow>
                 (\<exists>t ts. tags (base l) = Some (t # ts)))
            \<and> (\<forall>ts. tags (base l) = Some ts \<and> ts \<noteq> [] \<longrightarrow>
                 dict_get out ''tags'' = Some (VList (map VStr ts)))
            \<and> (\<forall>k. k \<notin> {''type'', ''enabled'', ''locked'', ''tags''} \<longrightarrow>
                 dict_get out k = dict_get b k)
            \<and> dict_keys b \<union> {''type'', ''enabled'', ''locked''} \<subseteq> dict_keys out
            \<and> dict_keys out \<subseteq> dict_keys b \<union> {''type'', ''enabled'', ''locked'', ''tags''}"
proof -
  from assms obtain b where b: "family_convert X l = Inr b" and out: "out = universal_fields l b"
    by (auto simp: convert_symbol_layer_unfold split: sum.splits)
  have fam: "is_FillSymbolLayer l \<and> convert_fill_symbol_layer X l = Inr b
              \<or> is_LineSymbolLayer l \<and> convert_line_symbol_layer X l = Inr b
              \<or> is_MarkerSymbolLayer l \<and> convert_marker_symbol_layer X l = Inr b"
    using b by (auto simp: family_convert_def split: if_splits)
  have no_tags: "''tags'' \<notin> dict_keys b"
    using b by (rule family_base_keys)
  have ht: "has_tags l \<longleftrightarrow> (\<exists>t ts. tags (base l) = Some (t # ts))"
    by (auto simp: has_tags_def neq_Nil_conv split: option.splits)
  have tags_iff: "''tags'' \<in> dict_keys out \<longleftrightarrow> (\<exists>t ts. tags (base l) = Some (t # ts))"
    using no_tags ht by (auto simp: out universal_fields_keys)
  have tags_val: "\<forall>ts. tags (base l) = Some ts \<and> ts \<noteq> [] \<longrightarrow>
      dict_get out ''tags'' = Some (VList (map VStr ts))"
    by (auto simp: out universal_fields_get has_tags_def)
  have three: "dict_get out ''type'' = Some (VStr (layer_class_name l))"
    "dict_get out ''enabled'' = Some (VBool (enabled (base l)))"
    "dict_get out ''locked'' = Some (VBool (locked (base l)))"
    by (simp_all add: out universal_fields_get)
  have rest: "\<forall>k. k \<notin> {''type'', ''enabled'', ''locked'', ''tags''} \<longrightarrow>
      dict_get out k = dict_get b k"
    by (simp add: out universal_fields_get)
  have keys: "dict_keys b \<union> {''type'', ''enabled'', ''locked''} \<subseteq> dict_keys out"
    "dict_keys out \<subseteq> dict_keys b \<union> {''type'', ''enabled'', ''locked'', ''tags''}"
    by (auto simp: out universal_fields_keys)
  show ?thesis
    using fam three tags_iff tags_val rest keys by blast
qed

text \<open>
  C1. When \<open>convert_symbol_layer\<close> returns a map for a layer, the map is the base map
  of the layer's family converter with \<open>type\<close> (the class name of the layer),
  \<open>enabled\<close> and \<open>locked\<close> written over it; it has the key \<open>tags\<close> exactly when
  the layer's tags are not empty, and then with the tags as value. A
  \<open>SimpleFillSymbolLayer\<close> with an rgb color, no outline layer, no outline symbol,
  enabled, not locked and with empty tags converts to a map whose keys are exactly
  \<open>type\<close>, \<open>enabled\<close>, \<open>locked\<close>, \<open>color\<close> and \<open>color_model\<close>.
\<close>

theorem layer_universal_fields:
  "(convert_symbol_layer X l = Inr out \<longrightarrow>
      (\<exists>b. (is_FillSymbolLayer l \<and> convert_fill_symbol_layer X l = Inr b
              \<or> is_LineSymbolLayer l \<and> convert_line_symbol_layer X l = Inr b
              \<or> is_MarkerSymbolLayer l \<and> convert_marker_symbol_layer X l = Inr b)
            \<and> dict_get out ''type'' = Some (VStr (layer_class_name l))
            \<and> dict_get out ''enabled'' = Some (VBool (enabled (base l)))
            \<and> dict_get out ''locked'' = Some (VBool (locked (base l)))
            \<and> (''tags'' \<in> dict_keys out \<longleftrightarrow>
                 (\<exists>t ts. tags (base l) = Some (t # ts)))
            \<and> (\<forall>ts. tags (base l) = Some ts \<and> ts \<noteq> [] \<longrightarrow>
                 dict_get out ''tags'' = Some (VList (map VStr ts)))
            \<and> (\<forall>k. k \<notin> {''type'', ''enabled'', ''locked'', ''tags''} \<longrightarrow>
                 dict_get out k = dict_get b k)
            \<and> dict_keys b \<union> {''type'', ''enabled'', ''locked''} \<subseteq> dict_keys out
            \<and> dict_keys out \<subseteq> dict_keys b \<union> {''type'', ''enabled'', ''locked'', ''tags''}))
   \<and> (\<exists>out'. convert_symbol_layer X
          (SimpleFillSymbolLayer \<lparr>enabled = True, locked = False, tags = Some []\<rparr>
             (Some \<lparr>model = ''rgb'', to_dict = d\<rparr>) None None) = Inr out'
        \<and> dict_keys out' = {''type'', ''enabled'', ''locked'', ''color'', ''color_model''}
        \<and> dict_get out' ''type'' = Some (VStr ''SimpleFillSymbolLayer'')
        \<and> dict_get out' ''enabled'' = Some (VBool True)
        \<and> dict_get out' ''locked'' = Some (VBool False)
        \<and> dict_get out' ''color'' = Some (VDict d)
        \<and> dict_get out' ''color_model'' = Some (VStr ''rgb''))"
proof -
  have scenario: "convert_symbol_layer X
     (SimpleFillSymbolLayer \<lparr>enabled = True, locked = False, tags = Some []\<rparr>
        (Some \<lparr>model = ''rgb'', to_dict = d\<rparr>) None None)
   = Inr [(''color'', VDict d), (''color_model'', VStr ''rgb''),
          (''type'', VStr ''SimpleFillSymbolLayer''), (''enabled'', VBool True),
          (''locked'', VBool False)]"
    by (simp add: convert_symbol_layer.simps convert_fill_symbol_layer.simps
        convert_simple_fill_symbol_layer.simps read_model_def convert_color_def)
  show ?thesis
    using universal_fields_overlaid [of X l out]
    by (auto simp: scenario dict_keys_def dict_get_def)
qed

theorem layer_universal_fields_witness:
  "convert_symbol_layer sample_externals (SimpleFillSymbolLayer plain (Some red) None None) =
     Inr [(''color'', VDict (to_dict red)), (''color_model'', VStr ''rgb''),
          (''type'', VStr ''SimpleFillSymbolLayer''), (''enabled'', VBool True),
          (''locked'', VBool False)]
   \<and> ''tags'' \<notin> dict_keys [(''color'', VDict (to_dict red)), (''color_model'', VStr ''rgb''),
          (''type'', VStr ''SimpleFillSymbolLayer''), (''enabled'', VBool True),
          (''locked'', VBool False)]
   \<and> dict_get [(''color'', VDict (to_dict red)), (''color_model'', VStr ''rgb''),
          (''type'', VStr ''SimpleFillSymbolLayer''), (''enabled'', VBool True),
          (''locked'', VBool False)] ''type'' = Some (VStr ''SimpleFillSymbolLayer'')"
proof -
  have h: "convert_symbol_layer sample_externals
      (SimpleFillSymbolLayer plain (Some red) None None) =
     Inr [(''color'', VDict (to_dict red)), (''color_model'', VStr ''rgb''),
          (''type'', VStr ''SimpleFillSymbolLayer''), (''enabled'', VBool True),
          (''locked'', VBool False)]"
    by (simp add: convert_symbol_layer.simps convert_fill_symbol_layer.simps
        convert_simple_fill_symbol_layer.simps read_model_def convert_color_def
        plain_def red_def)
  show ?thesis
    using h layer_universal_fields [of sample_externals
        "SimpleFillSymbolLayer plain (Some red) None None"
        "[(''color'', VDict (to_dict red)), (''color_model'', VStr ''rgb''),
          (''type'', VStr ''SimpleFillSymbolLayer''), (''enabled'', VBool True),
          (''locked'', VBool False)]"]
    by (simp add: plain_def dict_keys_def dict_get_def)
qed

section \<open>The picture converter\<close>

text \<open>
  C7. \<open>convert_picture\<close> maps \<open>None\<close> to \<open>None\<close>. Otherwise it replaces a
  \<open>StdPicture\<close> by the picture it holds, and returns \<open>type\<close>, the class name of
  that picture, with \<open>content\<close>: the base64 PNG of a \<open>BmpPicture\<close>, the base64
  of the bytes of an \<open>EmfPicture\<close>. Every other picture (another class, a holder
  in a holder, a holder of \<open>None\<close>) raises NotImplementedException with the class
  name.
\<close>

theorem convert_picture_cases:
  "convert_picture X None = Inr VNone
   \<and> convert_picture X (Some (BmpPicture c)) =
       Inr (VDict [(''type'', VStr ''BmpPicture''), (''content'', VStr (to_base64_png X c))])
   \<and> convert_picture X (Some (EmfPicture c)) =
       Inr (VDict [(''type'', VStr ''EmfPicture''), (''content'', VStr (to_base64 X c))])
   \<and> convert_picture X (Some (StdPicture (Some (BmpPicture c)))) =
       convert_picture X (Some (BmpPicture c))
   \<and> convert_picture X (Some (StdPicture (Some (EmfPicture c)))) =
       convert_picture X (Some (EmfPicture c))
   \<and> convert_picture X (Some (OtherPicture n)) = Inl (NotImplementedException (ClassName n))
   \<and> convert_picture X (Some (StdPicture (Some (OtherPicture n)))) =
       Inl (NotImplementedException (ClassName n))
   \<and> convert_picture X (Some (StdPicture (Some (StdPicture q)))) =
       Inl (NotImplementedException (ClassName ''StdPicture''))
   \<and> convert_picture X (Some (StdPicture None)) =
       Inl (NotImplementedException (ClassName ''NoneType''))"
  by (simp add: convert_picture_def unwrap_picture_def)

section \<open>Symbols\<close>

lemma sequence_Inr: "sequence rs = Inr xs \<Longrightarrow> rs = map Inr xs"
  by (induction rs arbitrary: xs) (auto split: sum.splits)

lemma sequence_map_Inr: "sequence (map Inr xs) = Inr xs"
  by (induction xs) auto

lemma fill_symbol_levels:
  assumes "convert_fill_symbol X (IsSymbol s) = Inr out"
  shows "\<exists>ds. map (convert_symbol_layer X) (levels s) = map Inr ds
            \<and> out = [(''type'', VStr ''FillSymbol''), (''levels'', VList (map VDict ds))]"
  using assms
  by (subst (asm) convert_fill_symbol.simps)
     (auto simp: Let_def split: sum.splits dest: sequence_Inr)

lemma line_symbol_levels:
  assumes "convert_line_symbol X (IsSymbol s) = Inr out"
  shows "\<exists>ds. map (convert_symbol_layer X) (levels s) = map Inr ds
            \<and> out = [(''type'', VStr ''LineSymbol''), (''levels'', VList (map VDict ds))]"
  using assms
  by (subst (asm) convert_line_symbol.simps)
     (auto simp: Let_def split: sum.splits dest: sequence_Inr)

lemma marker_symbol_unfold:
  "convert_marker_symbol X (IsSymbol (MarkerSymbol h hs ls)) =
     (case halo_entry X hs of
        Inl e \<Rightarrow> Inl e
      | Inr extra \<Rightarrow>
          (case sequence (map (convert_symbol_layer X) ls) of
             Inl e \<Rightarrow> Inl e
           | Inr ds \<Rightarrow>
               Inr ([(''type'', VStr ''MarkerSymbol''),
                     (''levels'', VList (map VDict ds)),
                     (''halo'', VBool (halo h)),
                     (''halo_size'', VNum (halo_size h)),
                     (''halo_symbol_type'', VStr (type_name_of_halo_symbol hs))] @ extra)))"
  by (subst convert_marker_symbol.simps)
     (simp add: halo_entry_def Let_def split: option.splits sum.splits)

lemma is_FillSymbol_iff: "is_FillSymbol s \<longleftrightarrow> (\<exists>hl. s = FillSymbol hl)"
  by (cases s) auto

lemma halo_entry_cases:
  assumes "halo_entry X hs = Inr extra"
  shows "(\<exists>hl d. hs = Some (FillSymbol hl) \<and> convert_symbol X (IsSymbol (FillSymbol hl)) = Inr d
            \<and> extra = [(''halo_symbol'', VDict d)])
         \<or> ((\<forall>hl. hs \<noteq> Some (FillSymbol hl)) \<and> extra = [])"
  using assms
  by (auto simp: halo_entry_def is_FillSymbol_iff split: option.splits if_splits sum.splits)

lemma marker_symbol_not_marker:
  "convert_marker_symbol X (IsLayer l) = Inl (AttributeError ''halo'')"
  "convert_marker_symbol X (IsSymbol (FillSymbol ls)) = Inl (AttributeError ''halo'')"
  "convert_marker_symbol X (IsSymbol (LineSymbol ls)) = Inl (AttributeError ''halo'')"
  by (simp_all add: convert_marker_symbol.simps)

lemma marker_symbol_levels:
  assumes "convert_marker_symbol X (IsSymbol s) = Inr out"
  shows "\<exists>ds. map (convert_symbol_layer X) (levels s) = map Inr ds
            \<and> dict_get out ''levels'' = Some (VList (map VDict ds))"
proof (cases s)
  case (MarkerSymbol h hs ls)
  from assms obtain extra ds where
    "sequence (map (convert_symbol_layer X) ls) = Inr ds"
    "out = [(''type'', VStr ''MarkerSymbol''), (''levels'', VList (map VDict ds)),
            (''halo'', VBool (halo h)), (''halo_size'', VNum (halo_size h)),
            (''halo_symbol_type'', VStr (type_name_of_halo_symbol hs))] @ extra"
    unfolding MarkerSymbol marker_symbol_unfold by (auto split: sum.splits)
  then show ?thesis
    by (auto simp: MarkerSymbol dict_get_def dest: sequence_Inr)
qed (use assms in \<open>simp_all add: marker_symbol_not_marker\<close>)

lemma convert_symbol_IsSymbol:
  "convert_symbol X (IsSymbol (FillSymbol ls)) = convert_fill_symbol X (IsSymbol (FillSymbol ls))"
  "convert_symbol X (IsSymbol (LineSymbol ls)) = convert_line_symbol X (IsSymbol (LineSymbol ls))"
  "convert_symbol X (IsSymbol (MarkerSymbol h hs ls)) =
     convert_marker_symbol X (IsSymbol (MarkerSymbol h hs ls))"
  by (simp_all add: convert_symbol.simps)

lemma symbol_levels:
  assumes "convert_fill_symbol X (IsSymbol s) = Inr out
         \<or> convert_line_symbol X (IsSymbol s) = Inr out
         \<or> convert_marker_symbol X (IsSymbol s) = Inr out
         \<or> convert_symbol X (IsSymbol s) = Inr out"
  shows "\<exists>ds. map (convert_symbol_layer X) (levels s) = map Inr ds
            \<and> dict_get out ''levels'' = Some (VList (map VDict ds))"
proof -
  have "convert_fill_symbol X (IsSymbol s) = Inr out
         \<or> convert_line_symbol X (IsSymbol s) = Inr out
         \<or> convert_marker_symbol X (IsSymbol s) = Inr out"
    using assms by (cases s) (auto simp: convert_symbol_IsSymbol)
  then show ?thesis
    by (auto simp: dict_get_def
        dest!: fill_symbol_levels line_symbol_levels marker_symbol_levels)
qed

text \<open>
  C4. When the conversion of a symbol returns, the \<open>levels\<close> of the output has one
  entry for each layer of the symbol, and the entry at position \<open>i\<close> is the conversion
  of the layer at position \<open>i\<close>: the order is the symbol's, and no layer is dropped or
  repeated.
\<close>

theorem levels_in_order:
  "(convert_fill_symbol X (IsSymbol s) = Inr out
      \<or> convert_line_symbol X (IsSymbol s) = Inr out
      \<or> convert_marker_symbol X (IsSymbol s) = Inr out
      \<or> convert_symbol X (IsSymbol s) = Inr out) \<longrightarrow>
   (\<exists>ds. dict_get out ''levels'' = Some (VList (map VDict ds))
        \<and> length ds = length (levels s)
        \<and> (\<forall>i < length (levels s). convert_symbol_layer X (levels s ! i) = Inr (ds ! i)))"
proof
  assume a: "convert_fill_symbol X (IsSymbol s) = Inr out
      \<or> convert_line_symbol X (IsSymbol s) = Inr out
      \<or> convert_marker_symbol X (IsSymbol s) = Inr out
      \<or> convert_symbol X (IsSymbol s) = Inr out"
  from symbol_levels [OF a] obtain ds where
    m: "map (convert_symbol_layer X) (levels s) = map Inr ds"
    and l: "dict_get out ''levels'' = Some (VList (map VDict ds))"
    by blast
  from m have len: "length ds = length (levels s)"
    by (metis length_map)
  have "convert_symbol_layer X (levels s ! i) = Inr (ds ! i)" if "i < length (levels s)" for i
  proof -
    have "map (convert_symbol_layer X) (levels s) ! i = map Inr ds ! i"
      by (simp add: m)
    with that len show ?thesis by simp
  qed
  with l len show "\<exists>ds. dict_get out ''levels'' = Some (VList (map VDict ds))
        \<and> length ds = length (levels s)
        \<and> (\<forall>i < length (levels s). convert_symbol_layer X (levels s ! i) = Inr (ds ! i))"
    by blast
qed

theorem levels_in_order_witness:
  "\<exists>out d1 d2.
     convert_symbol sample_externals
       (IsSymbol (FillSymbol [SimpleFillSymbolLayer plain (Some red) None None,
                              ColorSymbol plain (Some red)])) = Inr out
   \<and> convert_symbol_layer sample_externals (SimpleFillSymbolLayer plain (Some red) None None)
       = Inr d1
   \<and> convert_symbol_layer sample_externals (ColorSymbol plain (Some red)) = Inr d2
   \<and> dict_get out ''levels'' = Some (VList [VDict d1, VDict d2])"
proof -
  let ?s = "FillSymbol [SimpleFillSymbolLayer plain (Some red) None None,
                        ColorSymbol plain (Some red)]"
  obtain out where h: "convert_symbol sample_externals (IsSymbol ?s) = Inr out"
    by (simp add: eval_simps)
  from levels_in_order [of sample_externals ?s out] h obtain ds where
    l: "dict_get out ''levels'' = Some (VList (map VDict ds))" and
    n: "length ds = 2" and
    a: "\<forall>i<2. convert_symbol_layer sample_externals (levels ?s ! i) = Inr (ds ! i)"
    by auto
  from n obtain d1 d2 where ds: "ds = [d1, d2]"
    by (auto simp: length_Suc_conv numeral_2_eq_2)
  from a have "(0::nat) < 2 \<longrightarrow>
      convert_symbol_layer sample_externals (levels ?s ! 0) = Inr (ds ! 0)"
    "(1::nat) < 2 \<longrightarrow>
      convert_symbol_layer sample_externals (levels ?s ! 1) = Inr (ds ! 1)"
    by blast+
  with h l show ?thesis
    by (simp add: ds)
qed

text \<open>
  C8. When the conversion of a \<open>MarkerSymbol\<close> returns, the output has \<open>halo\<close>,
  \<open>halo_size\<close> and \<open>halo_symbol_type\<close>: the class name of the halo symbol, or
  \<open>NoneType\<close> when there is none. It has the key \<open>halo_symbol\<close> exactly when the
  halo symbol is a \<open>FillSymbol\<close>, and the value is then the conversion of that symbol
  by \<open>convert_symbol\<close>.
\<close>

theorem marker_symbol_halo:
  "convert_marker_symbol X (IsSymbol (MarkerSymbol h hs ls)) = Inr out \<longrightarrow>
     dict_get out ''halo'' = Some (VBool (halo h))
   \<and> dict_get out ''halo_size'' = Some (VNum (halo_size h))
   \<and> dict_get out ''halo_symbol_type'' =
        Some (VStr (case hs of None \<Rightarrow> ''NoneType'' | Some s \<Rightarrow> symbol_class_name s))
   \<and> (''halo_symbol'' \<in> dict_keys out \<longleftrightarrow> (\<exists>hl. hs = Some (FillSymbol hl)))
   \<and> (\<forall>hl. hs = Some (FillSymbol hl) \<longrightarrow>
         (\<exists>d. convert_symbol X (IsSymbol (FillSymbol hl)) = Inr d
             \<and> dict_get out ''halo_symbol'' = Some (VDict d)))"
proof
  assume a: "convert_marker_symbol X (IsSymbol (MarkerSymbol h hs ls)) = Inr out"
  then obtain extra ds where
    e: "halo_entry X hs = Inr extra" and
    out: "out = [(''type'', VStr ''MarkerSymbol''), (''levels'', VList (map VDict ds)),
            (''halo'', VBool (halo h)), (''halo_size'', VNum (halo_size h)),
            (''halo_symbol_type'', VStr (type_name_of_halo_symbol hs))] @ extra"
    unfolding marker_symbol_unfold by (auto split: sum.splits)
  from halo_entry_cases [OF e]
  show "dict_get out ''halo'' = Some (VBool (halo h))
   \<and> dict_get out ''halo_size'' = Some (VNum (halo_size h))
   \<and> dict_get out ''halo_symbol_type'' =
        Some (VStr (case hs of None \<Rightarrow> ''NoneType'' | Some s \<Rightarrow> symbol_class_name s))
   \<and> (''halo_symbol'' \<in> dict_keys out \<longleftrightarrow> (\<exists>hl. hs = Some (FillSymbol hl)))
   \<and> (\<forall>hl. hs = Some (FillSymbol hl) \<longrightarrow>
         (\<exists>d. convert_symbol X (IsSymbol (FillSymbol hl)) = Inr d
             \<and> dict_get out ''halo_symbol'' = Some (VDict d)))"
    by (auto simp: out dict_get_def dict_keys_def type_name_of_halo_symbol_def)
qed

theorem marker_symbol_halo_witness:
  "\<exists>out. convert_marker_symbol sample_externals
       (IsSymbol (MarkerSymbol \<lparr>halo = True, halo_size = 2\<rparr>
          (Some (FillSymbol [ColorSymbol plain (Some red)])) [sample_marker])) = Inr out
   \<and> dict_get out ''halo'' = Some (VBool True)
   \<and> dict_get out ''halo_size'' = Some (VNum 2)
   \<and> dict_get out ''halo_symbol_type'' = Some (VStr ''FillSymbol'')
   \<and> ''halo_symbol'' \<in> dict_keys out"
proof -
  obtain out where h: "convert_marker_symbol sample_externals
       (IsSymbol (MarkerSymbol \<lparr>halo = True, halo_size = 2\<rparr>
          (Some (FillSymbol [ColorSymbol plain (Some red)])) [sample_marker])) = Inr out"
    by (simp add: eval_simps)
  from marker_symbol_halo [of sample_externals "\<lparr>halo = True, halo_size = 2\<rparr>"
      "Some (FillSymbol [ColorSymbol plain (Some red)])" "[sample_marker]" out] h
  show ?thesis
    by simp
qed

text \<open>
  A bare fill layer and a bare line layer convert as the symbol of their category with
  that one layer.
\<close>

lemma bare_fill_layer:
  "convert_fill_symbol X (IsLayer l) = convert_fill_symbol X (IsSymbol (FillSymbol [l]))"
  by (simp add: convert_fill_symbol.simps split: sum.splits)

lemma bare_line_layer:
  "convert_line_symbol X (IsLayer l) = convert_line_symbol X (IsSymbol (LineSymbol [l]))"
  by (simp add: convert_line_symbol.simps split: sum.splits)

text \<open>
  C3. A bare layer should give the same \<open>levels\<close> as the symbol of one layer. For a bare
  marker layer \<open>convert_marker_symbol\<close> raises AttributeError on reading
  \<open>symbol.halo\<close>, before it reaches its branch for a bare layer, while the
  \<open>MarkerSymbol\<close> with that one layer converts, with the converted layer as its
  \<open>levels\<close>.
\<close>

theorem bare_marker_layer_raises:
  "convert_marker_symbol sample_externals (IsLayer sample_marker) = Inl (AttributeError ''halo'')
   \<and> convert_symbol sample_externals (IsLayer sample_marker) = Inl (AttributeError ''halo'')
   \<and> (\<exists>out d. convert_symbol sample_externals
          (IsSymbol (MarkerSymbol \<lparr>halo = False, halo_size = 0\<rparr> None [sample_marker]))
            = Inr out
        \<and> convert_symbol_layer sample_externals sample_marker = Inr d
        \<and> dict_get out ''levels'' = Some (VList [VDict d]))"
  by (simp add: eval_simps)


section \<open>Line, picture and glyph layers\<close>

lemmas base_splits = sum.splits option.splits symbol_or_layer.splits decoration.splits

lemma marker_line_base:
  assumes "convert_marker_line_symbol_layer X (MarkerLineSymbolLayer b a pm dec) = Inr out"
  shows "dict_get out ''color'' = Some (convert_color (ml_color a))"
    and "dict_get out ''color_model'' = Some (read_model_or_None (ml_color a))"
    and "ml_template a = None \<Longrightarrow> dict_get out ''template'' = Some VNone"
    and "pm = None \<Longrightarrow> dict_get out ''pattern_marker'' = Some VNone"
    and "dec = None \<Longrightarrow> dict_get out ''decoration'' = Some VNone"
  using assms
  by (auto simp: convert_marker_line_symbol_layer.simps Let_def dict_get_set dict_get_def
      split: base_splits)

lemma hash_line_base:
  assumes "convert_hash_line_symbol_layer X (HashLineSymbolLayer b a line dec) = Inr out"
  shows "hl_color a \<noteq> None"
    and "hl_template a = None \<Longrightarrow> dict_get out ''template'' = Some VNone"
    and "line = None \<Longrightarrow> dict_get out ''line'' = Some VNone"
    and "dec = None \<Longrightarrow> dict_get out ''decoration'' = Some VNone"
  using assms
  by (auto simp: convert_hash_line_symbol_layer.simps read_model_def Let_def dict_get_set
      dict_get_def split: base_splits)

lemma character_marker_base:
  assumes "convert_character_marker_symbol_layer (CharacterMarkerSymbolLayer b a) = Inr out"
  shows "cm_color a \<noteq> None"
    and "cm_std_font a = None \<Longrightarrow> dict_get out ''std_font'' = Some VNone"
  using assms
  by (auto simp: convert_character_marker_symbol_layer_def read_model_def Let_def dict_get_set
      dict_get_def split: base_splits)

lemma picture_fill_base:
  assumes "convert_picture_fill_symbol_layer X (PictureFillSymbolLayer b a ol os) = Inr out"
  shows "pf_color_background a \<noteq> None"
    and "dict_get out ''color_foreground'' = Some (convert_color (pf_color_foreground a))"
    and "dict_get out ''color_foreground_model'' =
           Some (read_model_or_None (pf_color_foreground a))"
    and "dict_get out ''color_transparent'' = Some (convert_color (pf_color_transparent a))"
    and "dict_get out ''color_transparent_model'' =
           Some (read_model_or_None (pf_color_transparent a))"
  using assms
  by (auto simp: convert_picture_fill_symbol_layer.simps read_model_def Let_def dict_get_set
      dict_get_def split: base_splits)

lemma picture_marker_base:
  assumes "convert_picture_marker_symbol_layer X (PictureMarkerSymbolLayer b a) = Inr out"
  shows "pm_color_foreground a \<noteq> None"
    and "pm_color_background a \<noteq> None"
    and "dict_get out ''color_transparent'' = Some (convert_color (pm_color_transparent a))"
    and "dict_get out ''color_transparent_model'' =
           Some (read_model_or_None (pm_color_transparent a))"
  using assms
  by (auto simp: convert_picture_marker_symbol_layer_def read_model_def Let_def dict_get_set
      dict_get_def split: base_splits)

lemma layer_base_map:
  assumes "convert_symbol_layer X l = Inr out"
  shows "\<exists>b. family_convert X l = Inr b
       \<and> (\<forall>k. k \<notin> {''type'', ''enabled'', ''locked'', ''tags''} \<longrightarrow>
             dict_get out k = dict_get b k)"
  using assms
  by (auto simp: convert_symbol_layer_unfold universal_fields_get split: sum.splits)

text \<open>
  C5. When the conversion of a \<open>CartographicLineSymbolLayer\<close> returns, the output has
  the keys \<open>template\<close> and \<open>decoration\<close>. The value of \<open>template\<close> is \<open>None\<close>
  when the layer has no template, and otherwise the map of \<open>convert_template\<close>:
  \<open>pattern_interval\<close> and \<open>pattern_parts\<close>, the parts in their order. The value of
  \<open>decoration\<close> is \<open>None\<close> when the layer has no decoration, and otherwise the
  conversion of the decoration.
\<close>

theorem cartographic_template_decoration:
  "(convert_symbol_layer X (CartographicLineSymbolLayer b a dec) = Inr out \<longrightarrow>
      dict_get out ''template'' =
        Some (case cl_template a of None \<Rightarrow> VNone | Some t \<Rightarrow> VDict (convert_template t))
    \<and> (dec = None \<longrightarrow> dict_get out ''decoration'' = Some VNone)
    \<and> (\<forall>d. dec = Some d \<longrightarrow>
          (\<exists>dd. convert_line_decoration X d = Inr dd
               \<and> dict_get out ''decoration'' = Some (VDict dd)))
    \<and> ''template'' \<in> dict_keys out \<and> ''decoration'' \<in> dict_keys out)
   \<and> convert_template t =
        [(''pattern_interval'', VNum (pattern_interval t)),
         (''pattern_parts'', VList (map VNum (pattern_parts t)))]"
proof -
  have "dict_get out ''template'' =
        Some (case cl_template a of None \<Rightarrow> VNone | Some t \<Rightarrow> VDict (convert_template t))
    \<and> (dec = None \<longrightarrow> dict_get out ''decoration'' = Some VNone)
    \<and> (\<forall>d. dec = Some d \<longrightarrow>
          (\<exists>dd. convert_line_decoration X d = Inr dd
               \<and> dict_get out ''decoration'' = Some (VDict dd)))
    \<and> ''template'' \<in> dict_keys out \<and> ''decoration'' \<in> dict_keys out"
    if a: "convert_symbol_layer X (CartographicLineSymbolLayer b a dec) = Inr out"
  proof -
    from layer_base_map [OF a] obtain m where
      fm: "family_convert X (CartographicLineSymbolLayer b a dec) = Inr m"
      and eq: "\<forall>k. k \<notin> {''type'', ''enabled'', ''locked'', ''tags''} \<longrightarrow>
                 dict_get out k = dict_get m k"
      by blast
    have m: "convert_cartographic_line_symbol_layer X (CartographicLineSymbolLayer b a dec) = Inr m"
      using fm by (simp only: family_convert_simps)
    have t: "dict_get out ''template'' = dict_get m ''template''"
      using eq by simp
    have d: "dict_get out ''decoration'' = dict_get m ''decoration''"
      using eq by simp
    note cb = cartographic_base [OF m]
    have 1: "dict_get out ''template'' =
        Some (case cl_template a of None \<Rightarrow> VNone | Some t \<Rightarrow> VDict (convert_template t))"
      using cb(1) t by simp
    have 2: "dec = None \<longrightarrow> dict_get out ''decoration'' = Some VNone"
      using cb(2) d by simp
    have 3: "\<forall>d. dec = Some d \<longrightarrow>
          (\<exists>dd. convert_line_decoration X d = Inr dd
               \<and> dict_get out ''decoration'' = Some (VDict dd))"
      using cb(3) d by simp
    have 4: "''template'' \<in> dict_keys out"
      using 1 by (rule dict_get_key)
    have 5: "''decoration'' \<in> dict_keys out"
    proof (cases dec)
      case None
      with 2 show ?thesis by (blast intro: dict_get_key)
    next
      case (Some d0)
      with 3 show ?thesis by (blast intro: dict_get_key)
    qed
    from 1 2 3 4 5 show ?thesis by (intro conjI)
  qed
  moreover have "convert_template t =
        [(''pattern_interval'', VNum (pattern_interval t)),
         (''pattern_parts'', VList (map VNum (pattern_parts t)))]"
    by (simp add: convert_template_def)
  ultimately show ?thesis
    by blast
qed

theorem cartographic_template_decoration_witness:
  "\<exists>out. convert_symbol_layer sample_externals sample_cartographic = Inr out
     \<and> dict_get out ''template'' =
         Some (VDict [(''pattern_interval'', VNum 4), (''pattern_parts'', VList [VNum 2, VNum 2])])
     \<and> dict_get out ''decoration'' = Some VNone"
proof -
  obtain out where h: "convert_symbol_layer sample_externals sample_cartographic = Inr out"
    by (simp add: eval_simps sample_defs)
  from h cartographic_template_decoration [of sample_externals plain
      "\<lparr>cl_color = Some red, cl_width = 1, cl_offset = 0, cl_cap = VStr ''butt'',
        cl_join = VStr ''miter'',
        cl_template = Some \<lparr>pattern_interval = 4, pattern_parts = [2, 2]\<rparr>\<rparr>"
      None out "\<lparr>pattern_interval = 4, pattern_parts = [2, 2]\<rparr>"]
  show ?thesis
    by (simp add: sample_cartographic_def)
qed

text \<open>
  C6. Where the color is read with a guard, a color that is \<open>None\<close> gives \<open>None\<close>
  for the color and for its model: \<open>color\<close> and \<open>color_model\<close> of a
  \<open>MarkerLineSymbolLayer\<close>, \<open>color_transparent\<close> and \<open>color_transparent_model\<close>
  of a \<open>PictureFillSymbolLayer\<close> and of a \<open>PictureMarkerSymbolLayer\<close>.
\<close>

theorem nullable_colors:
  "(convert_symbol_layer X (MarkerLineSymbolLayer b1 a1 pm dec) = Inr out1
      \<and> ml_color a1 = None \<longrightarrow>
        dict_get out1 ''color'' = Some VNone \<and> dict_get out1 ''color_model'' = Some VNone)
   \<and> (convert_symbol_layer X (PictureFillSymbolLayer b2 a2 ol os) = Inr out2
      \<and> pf_color_transparent a2 = None \<longrightarrow>
        dict_get out2 ''color_transparent'' = Some VNone
      \<and> dict_get out2 ''color_transparent_model'' = Some VNone)
   \<and> (convert_symbol_layer X (PictureMarkerSymbolLayer b3 a3) = Inr out3
      \<and> pm_color_transparent a3 = None \<longrightarrow>
        dict_get out3 ''color_transparent'' = Some VNone
      \<and> dict_get out3 ''color_transparent_model'' = Some VNone)"
proof (intro conjI impI; elim conjE)
  assume a: "convert_symbol_layer X (MarkerLineSymbolLayer b1 a1 pm dec) = Inr out1"
    and n: "ml_color a1 = None"
  from layer_base_map [OF a] obtain m where
    fm: "family_convert X (MarkerLineSymbolLayer b1 a1 pm dec) = Inr m"
    and eq: "\<forall>k. k \<notin> {''type'', ''enabled'', ''locked'', ''tags''} \<longrightarrow>
               dict_get out1 k = dict_get m k"
    by blast
  have m: "convert_marker_line_symbol_layer X (MarkerLineSymbolLayer b1 a1 pm dec) = Inr m"
    using fm by (simp only: family_convert_simps)
  show "dict_get out1 ''color'' = Some VNone"
    using marker_line_base(1) [OF m] eq n by (simp add: convert_color_def)
  show "dict_get out1 ''color_model'' = Some VNone"
    using marker_line_base(2) [OF m] eq n by (simp add: read_model_or_None_def)
next
  assume a: "convert_symbol_layer X (PictureFillSymbolLayer b2 a2 ol os) = Inr out2"
    and n: "pf_color_transparent a2 = None"
  from layer_base_map [OF a] obtain m where
    fm: "family_convert X (PictureFillSymbolLayer b2 a2 ol os) = Inr m"
    and eq: "\<forall>k. k \<notin> {''type'', ''enabled'', ''locked'', ''tags''} \<longrightarrow>
               dict_get out2 k = dict_get m k"
    by blast
  have m: "convert_picture_fill_symbol_layer X (PictureFillSymbolLayer b2 a2 ol os) = Inr m"
    using fm by (simp only: family_convert_simps)
  show "dict_get out2 ''color_transparent'' = Some VNone"
    using picture_fill_base(4) [OF m] eq n by (simp add: convert_color_def)
  show "dict_get out2 ''color_transparent_model'' = Some VNone"
    using picture_fill_base(5) [OF m] eq n by (simp add: read_model_or_None_def)
next
  assume a: "convert_symbol_layer X (PictureMarkerSymbolLayer b3 a3) = Inr out3"
    and n: "pm_color_transparent a3 = None"
  from layer_base_map [OF a] obtain m where
    fm: "family_convert X (PictureMarkerSymbolLayer b3 a3) = Inr m"
    and eq: "\<forall>k. k \<notin> {''type'', ''enabled'', ''locked'', ''tags''} \<longrightarrow>
               dict_get out3 k = dict_get m k"
    by blast
  have m: "convert_picture_marker_symbol_layer X (PictureMarkerSymbolLayer b3 a3) = Inr m"
    using fm by (simp only: family_convert_simps)
  show "dict_get out3 ''color_transparent'' = Some VNone"
    using picture_marker_base(3) [OF m] eq n by (simp add: convert_color_def)
  show "dict_get out3 ''color_transparent_model'' = Some VNone"
    using picture_marker_base(4) [OF m] eq n by (simp add: read_model_or_None_def)
qed

theorem nullable_colors_witness:
  "\<exists>out1 out2 out3.
     convert_symbol_layer sample_externals sample_marker_line = Inr out1
   \<and> dict_get out1 ''color'' = Some VNone \<and> dict_get out1 ''color_model'' = Some VNone
   \<and> convert_symbol_layer sample_externals sample_picture_fill = Inr out2
   \<and> dict_get out2 ''color_transparent'' = Some VNone
   \<and> dict_get out2 ''color_transparent_model'' = Some VNone
   \<and> convert_symbol_layer sample_externals sample_picture_marker = Inr out3
   \<and> dict_get out3 ''color_transparent'' = Some VNone
   \<and> dict_get out3 ''color_transparent_model'' = Some VNone"
proof -
  obtain out1 where h1: "convert_symbol_layer sample_externals sample_marker_line = Inr out1"
    by (simp add: eval_simps sample_defs)
  obtain out2 where h2: "convert_symbol_layer sample_externals sample_picture_fill = Inr out2"
    by (simp add: eval_simps sample_defs)
  obtain out3 where h3: "convert_symbol_layer sample_externals sample_picture_marker = Inr out3"
    by (simp add: eval_simps sample_defs)
  from h1 h2 h3
    nullable_colors [of sample_externals plain
      "\<lparr>ml_color = None, ml_offset = 0, ml_cap = VStr ''butt'', ml_join = VStr ''miter'',
        ml_template = None\<rparr>" None None out1
      plain
      "\<lparr>pf_color_foreground = None, pf_color_background = Some red,
        pf_color_transparent = None, pf_swap_fb_gb = False,
        pf_picture = Some (BmpPicture [66, 77]), pf_angle = 0, pf_scale_x = 1, pf_scale_y = 1,
        pf_offset_x = 0, pf_offset_y = 0, pf_separation_x = 0, pf_separation_y = 0\<rparr>"
      None None out2
      plain
      "\<lparr>pm_color_foreground = Some red, pm_color_background = Some red,
        pm_color_transparent = None, pm_size = 8, pm_angle = 0, pm_x_offset = 0,
        pm_y_offset = 0, pm_swap_fb_gb = False, pm_picture = None\<rparr>" out3]
  show ?thesis
    by (simp add: sample_defs)
qed

text \<open>
  C9. An absent sub-object of a hash line, marker line or character marker layer is
  written as a key with the value \<open>None\<close>, not left out: \<open>template\<close>, \<open>line\<close>
  and \<open>decoration\<close> of a \<open>HashLineSymbolLayer\<close>, \<open>pattern_marker\<close> (and
  \<open>template\<close>, \<open>decoration\<close>) of a \<open>MarkerLineSymbolLayer\<close>, \<open>std_font\<close> of a
  \<open>CharacterMarkerSymbolLayer\<close>.
\<close>

theorem explicit_nulls:
  "(convert_symbol_layer X (HashLineSymbolLayer b1 a1 line dec1) = Inr out1 \<longrightarrow>
       (hl_template a1 = None \<longrightarrow> dict_get out1 ''template'' = Some VNone)
     \<and> (line = None \<longrightarrow> dict_get out1 ''line'' = Some VNone)
     \<and> (dec1 = None \<longrightarrow> dict_get out1 ''decoration'' = Some VNone))
   \<and> (convert_symbol_layer X (MarkerLineSymbolLayer b2 a2 pm dec2) = Inr out2 \<longrightarrow>
       (pm = None \<longrightarrow> dict_get out2 ''pattern_marker'' = Some VNone)
     \<and> (ml_template a2 = None \<longrightarrow> dict_get out2 ''template'' = Some VNone)
     \<and> (dec2 = None \<longrightarrow> dict_get out2 ''decoration'' = Some VNone))
   \<and> (convert_symbol_layer X (CharacterMarkerSymbolLayer b3 a3) = Inr out3 \<longrightarrow>
       (cm_std_font a3 = None \<longrightarrow> dict_get out3 ''std_font'' = Some VNone))"
proof (intro conjI impI)
  assume a: "convert_symbol_layer X (HashLineSymbolLayer b1 a1 line dec1) = Inr out1"
  from layer_base_map [OF a] obtain m where
    fm: "family_convert X (HashLineSymbolLayer b1 a1 line dec1) = Inr m"
    and eq: "\<forall>k. k \<notin> {''type'', ''enabled'', ''locked'', ''tags''} \<longrightarrow>
               dict_get out1 k = dict_get m k"
    by blast
  have m: "convert_hash_line_symbol_layer X (HashLineSymbolLayer b1 a1 line dec1) = Inr m"
    using fm by (simp only: family_convert_simps)
  show "dict_get out1 ''template'' = Some VNone" if "hl_template a1 = None"
    using hash_line_base(2) [OF m that] eq by simp
  show "dict_get out1 ''line'' = Some VNone" if "line = None"
    using hash_line_base(3) [OF m that] eq by simp
  show "dict_get out1 ''decoration'' = Some VNone" if "dec1 = None"
    using hash_line_base(4) [OF m that] eq by simp
next
  assume a: "convert_symbol_layer X (MarkerLineSymbolLayer b2 a2 pm dec2) = Inr out2"
  from layer_base_map [OF a] obtain m where
    fm: "family_convert X (MarkerLineSymbolLayer b2 a2 pm dec2) = Inr m"
    and eq: "\<forall>k. k \<notin> {''type'', ''enabled'', ''locked'', ''tags''} \<longrightarrow>
               dict_get out2 k = dict_get m k"
    by blast
  have m: "convert_marker_line_symbol_layer X (MarkerLineSymbolLayer b2 a2 pm dec2) = Inr m"
    using fm by (simp only: family_convert_simps)
  show "dict_get out2 ''pattern_marker'' = Some VNone" if "pm = None"
    using marker_line_base(4) [OF m that] eq by simp
  show "dict_get out2 ''template'' = Some VNone" if "ml_template a2 = None"
    using marker_line_base(3) [OF m that] eq by simp
  show "dict_get out2 ''decoration'' = Some VNone" if "dec2 = None"
    using marker_line_base(5) [OF m that] eq by simp
next
  assume a: "convert_symbol_layer X (CharacterMarkerSymbolLayer b3 a3) = Inr out3"
  from layer_base_map [OF a] obtain m where
    fm: "family_convert X (CharacterMarkerSymbolLayer b3 a3) = Inr m"
    and eq: "\<forall>k. k \<notin> {''type'', ''enabled'', ''locked'', ''tags''} \<longrightarrow>
               dict_get out3 k = dict_get m k"
    by blast
  have m: "convert_character_marker_symbol_layer (CharacterMarkerSymbolLayer b3 a3) = Inr m"
    using fm by (simp only: family_convert_simps)
  show "dict_get out3 ''std_font'' = Some VNone" if "cm_std_font a3 = None"
    using character_marker_base(2) [OF m that] eq by simp
qed

theorem explicit_nulls_witness:
  "\<exists>out1 out2 out3.
     convert_symbol_layer sample_externals sample_hash_line = Inr out1
   \<and> dict_get out1 ''template'' = Some VNone \<and> dict_get out1 ''line'' = Some VNone
   \<and> dict_get out1 ''decoration'' = Some VNone
   \<and> convert_symbol_layer sample_externals sample_marker_line = Inr out2
   \<and> dict_get out2 ''pattern_marker'' = Some VNone
   \<and> convert_symbol_layer sample_externals sample_character_marker = Inr out3
   \<and> dict_get out3 ''std_font'' = Some VNone"
proof -
  obtain out1 where h1: "convert_symbol_layer sample_externals sample_hash_line = Inr out1"
    by (simp add: eval_simps sample_defs)
  obtain out2 where h2: "convert_symbol_layer sample_externals sample_marker_line = Inr out2"
    by (simp add: eval_simps sample_defs)
  obtain out3 where h3:
    "convert_symbol_layer sample_externals sample_character_marker = Inr out3"
    by (simp add: eval_simps sample_defs)
  from h1 h2 h3
    explicit_nulls [of sample_externals plain
      "\<lparr>hl_color = Some red, hl_width = 1, hl_offset = 0, hl_cap = VStr ''butt'',
        hl_join = VStr ''miter'', hl_template = None\<rparr>" None None out1
      plain
      "\<lparr>ml_color = None, ml_offset = 0, ml_cap = VStr ''butt'', ml_join = VStr ''miter'',
        ml_template = None\<rparr>" None None out2
      plain
      "\<lparr>cm_color = Some red, cm_unicode = VNum 65, cm_font = VStr ''ESRI Default Marker'',
        cm_std_font = None, cm_size = 8, cm_angle = 0, cm_x_offset = 0, cm_y_offset = 0\<rparr>"
      out3]
  show ?thesis
    by (simp add: sample_defs)
qed

end
